theory Spec2Isabelle
  imports Main "HOL-Library.AList" "HOL-Library.Multiset" "HOL-Library.Word"
    "HOL-Library.Char_ord" "HOL-Library.List_Lexorder"
begin

section \<open>Values of the Go libraries that the package uses\<close>

text \<open>
  \<^verbatim>\<open>net.IP\<close> is a byte slice of the Go standard library. The package never looks at
  the bytes: it observes an address through \<^verbatim>\<open>ip.String()\<close> (the key of the
  membership cache and the member sent to OVN) and through \<^verbatim>\<open>utilnet.IsIPv6(ip)\<close>
  (the family). Both functions live outside the repository, so an address carries its two
  observations next to its bytes. Two addresses may share a string form and still differ
  (the 4-byte and the 16-byte form of an IPv4 address), and nothing relates the bytes to
  the family, so an invalid address is an \<open>IP\<close> like any other.
\<close>

record IP =
  bytes :: "8 word list"
  String :: string
  IsIPv6 :: bool

text \<open>\<^verbatim>\<open>strings.HasSuffix\<close> and \<^verbatim>\<open>strings.TrimSuffix\<close> on byte strings.\<close>

definition HasSuffix :: "string \<Rightarrow> string \<Rightarrow> bool" where
  "HasSuffix s suffix =
     (length s \<ge> length suffix \<and> drop (length s - length suffix) s = suffix)"

definition TrimSuffix :: "string \<Rightarrow> string \<Rightarrow> string" where
  "TrimSuffix s suffix =
     (if HasSuffix s suffix then take (length s - length suffix) s else s)"

section \<open>Names of address sets\<close>

definition ipv4AddressSetSuffix :: string where
  "ipv4AddressSetSuffix = ''_v4''"

definition ipv6AddressSetSuffix :: string where
  "ipv6AddressSetSuffix = ''_v6''"

definition truncateSuffixFromAddressSet :: "string \<Rightarrow> string" where
  "truncateSuffixFromAddressSet asName =
     (if HasSuffix asName ipv4AddressSetSuffix then TrimSuffix asName ipv4AddressSetSuffix
      else if HasSuffix asName ipv6AddressSetSuffix then TrimSuffix asName ipv6AddressSetSuffix
      else asName)"

text \<open>
  \<^verbatim>\<open>hashedAddressSet\<close> calls \<^verbatim>\<open>util.HashForOVN\<close>, a function of another package of the
  repository (\<^verbatim>\<open>go-controller/pkg/util\<close>); it is the parameter \<open>HashForOVN\<close> of every
  function that hashes a name.
\<close>

definition hashedAddressSet :: "(string \<Rightarrow> string) \<Rightarrow> string \<Rightarrow> string" where
  "hashedAddressSet HashForOVN s = HashForOVN s"

definition MakeAddressSetName :: "string \<Rightarrow> string \<times> string" where
  "MakeAddressSetName name = (name @ ipv4AddressSetSuffix, name @ ipv6AddressSetSuffix)"

definition MakeAddressSetHashNames :: "(string \<Rightarrow> string) \<Rightarrow> string \<Rightarrow> string \<times> string" where
  "MakeAddressSetHashNames HashForOVN name =
     (let (ipv4AddressSetName, ipv6AddressSetName) = MakeAddressSetName name
      in (hashedAddressSet HashForOVN ipv4AddressSetName,
          hashedAddressSet HashForOVN ipv6AddressSetName))"

section \<open>Splitting addresses by family\<close>

text \<open>
  The loop of \<^verbatim>\<open>splitIPsByFamily\<close> appends each address to one of the two result
  slices; \<open>splitLoop\<close> is that loop with the two slices built so far.
\<close>

fun splitLoop :: "IP list \<Rightarrow> IP list \<Rightarrow> IP list \<Rightarrow> IP list \<times> IP list" where
  "splitLoop v4 v6 [] = (v4, v6)"
| "splitLoop v4 v6 (ip # rest) =
     (if IsIPv6 ip then splitLoop v4 (v6 @ [ip]) rest
      else splitLoop (v4 @ [ip]) v6 rest)"

definition splitIPsByFamily :: "IP list \<Rightarrow> IP list \<times> IP list" where
  "splitIPsByFamily ipl = splitLoop [] [] ipl"

section \<open>Errors\<close>

text \<open>
  A Go \<^verbatim>\<open>error\<close> is one of the two sentinel values of the OVN client that the package
  compares against, any other error of the client, an error made by \<^verbatim>\<open>fmt.Errorf\<close>
  (kept as its format string, its string arguments and the error it formats last), or an
  error made by \<^verbatim>\<open>errors.Wrapf\<close> of github.com/pkg/errors (the wrapped error, the
  format string and the formatted argument, an error or nil). \<open>None\<close> is the nil error.
\<close>

datatype error =
    ErrorNotFound
  | ErrorSchema
  | ErrorOther string
  | Errorf string "string list" error
  | Wrapped error string "error option"

text \<open>
  \<^verbatim>\<open>errors.Wrapf(err, format, args...)\<close> of github.com/pkg/errors is a library outside
  the repository. Its documentation reads: "Wrapf returns an error annotating err with a
  stack trace at the point Wrapf is called, and the format specifier. If err is nil, Wrapf
  returns nil."
\<close>

definition Wrapf :: "error option \<Rightarrow> string \<Rightarrow> error option \<Rightarrow> error option" where
  "Wrapf err format arg =
     (case err of None \<Rightarrow> None | Some e \<Rightarrow> Some (Wrapped e format arg))"

section \<open>The OVN northbound client\<close>

text \<open>
  \<^verbatim>\<open>goovn.AddressSet\<close>, a row of the listing. \<^verbatim>\<open>ExternalID\<close> is a
  \<^verbatim>\<open>map[interface{}]interface{}\<close>; the package reads the key \<^verbatim>\<open>"name"\<close> only
  and asks whether the value is a string.
\<close>

datatype interface = StringVal string | OtherVal

record AddressSet =
  UUID :: string
  Name :: string
  Addresses :: "string list"
  ExternalID :: "string \<rightharpoonup> interface"

text \<open>
  The client \<^verbatim>\<open>goovn.Client\<close> is an interface implemented outside the repository. The
  package calls six of its methods. A command (\<^verbatim>\<open>*goovn.OvnCommand\<close>) is opaque to the
  package, which hands it from a builder to \<^verbatim>\<open>Execute\<close>; its type is the parameter
  \<open>'c\<close>. Every call the package makes is recorded, in order, in a trace. What the client
  answers is an arbitrary function of the calls made before and of the arguments, so a
  client may fail at any call and may answer the same call differently later.
\<close>

datatype 'c call =
    ASGetCall string
  | ASAddCall string "string list" "(string \<times> string) list"
  | ASUpdateCall string "string list" "(string \<times> string) list"
  | ASDelCall string
  | ASListCall
  | ExecuteCall 'c

record 'c Client =
  ASGet :: "'c call list \<Rightarrow> string \<Rightarrow> error option"
  ASAdd :: "'c call list \<Rightarrow> string \<Rightarrow> string list \<Rightarrow> (string \<times> string) list \<Rightarrow> error + 'c"
  ASUpdate :: "'c call list \<Rightarrow> string \<Rightarrow> string list \<Rightarrow> (string \<times> string) list \<Rightarrow> error + 'c"
  ASDel :: "'c call list \<Rightarrow> string \<Rightarrow> error + 'c"
  ASList :: "'c call list \<Rightarrow> AddressSet list \<times> error option"
  Execute :: "'c call list \<Rightarrow> 'c \<Rightarrow> error option"

section \<open>The address set of one family\<close>

text \<open>
  \<^verbatim>\<open>ovnAddressSet\<close>. The field \<^verbatim>\<open>nb\<close> of the struct is the client, which the
  functions below take as their first argument. The cache \<^verbatim>\<open>ips\<close> is a Go map from
  the string form of an address to the address; it is kept as an association list with
  one entry for each key. A nil map reads like an empty one and the package assigns a new
  map to the field whenever it changes the cache, so nil and empty are both \<open>[]\<close>.
\<close>

record ovnAddressSet =
  name :: string
  hashName :: string
  uuid :: string
  ips :: "(string \<times> IP) list"

definition asDetail :: "ovnAddressSet \<Rightarrow> string" where
  "asDetail as = uuid as @ ''/'' @ name as @ ''/'' @ hashName as"

definition ipsToStringArray :: "IP list \<Rightarrow> string list" where
  "ipsToStringArray ipl = map String ipl"

text \<open>\<^verbatim>\<open>strings.Join\<close>.\<close>

fun Join :: "string list \<Rightarrow> string \<Rightarrow> string" where
  "Join [] sep = []"
| "Join [x] sep = x"
| "Join (x # y # ys) sep = x @ sep @ Join (y # ys) sep"

text \<open>\<^verbatim>\<open>sort.Strings\<close> orders strings byte by byte, as \<open>sort\<close> does on \<open>char list\<close>.\<close>

definition joinIPs :: "IP list \<Rightarrow> string" where
  "joinIPs ipl = Join (sort (map (\<lambda>ip. ''\"'' @ String ip @ ''\"'') ipl)) '' ''"

text \<open>
  Go leaves the order in which \<^verbatim>\<open>range\<close> visits a map unspecified. \<open>allIPs\<close> takes
  that order as the parameter \<open>rangeOrder\<close>, which rearranges the entries of the cache.
\<close>

definition allIPs ::
  "((string \<times> IP) list \<Rightarrow> (string \<times> IP) list) \<Rightarrow> ovnAddressSet \<Rightarrow> IP list" where
  "allIPs rangeOrder as = map snd (rangeOrder (ips as))"

text \<open>
  The loop \<^verbatim>\<open>for _, ip := range ips { as.ips[ip.String()] = ip }\<close> on a fresh map, which
  \<^verbatim>\<open>newOvnAddressSet\<close> and \<^verbatim>\<open>setIPs\<close> both run.
\<close>

definition storeIPs :: "IP list \<Rightarrow> (string \<times> IP) list" where
  "storeIPs ipl = fold (\<lambda>ip m. AList.update (String ip) ip m) ipl []"

definition setIPs ::
  "'c Client \<Rightarrow> ovnAddressSet \<Rightarrow> IP list \<Rightarrow> 'c call list
     \<Rightarrow> error option \<times> ovnAddressSet \<times> 'c call list" where
  "setIPs nb as ipl tr =
     (let newIPs = ipsToStringArray ipl;
          tr1 = tr @ [ASUpdateCall (hashName as) newIPs [(''name'', name as)]]
      in case ASUpdate nb tr (hashName as) newIPs [(''name'', name as)] of
           Inl err \<Rightarrow>
             (Some (Errorf ''failed to create update for address set %q: %v''
                      [asDetail as] err), as, tr1)
         | Inr cmd \<Rightarrow>
             (case Execute nb tr1 cmd of
                Some err \<Rightarrow>
                  (Some (Errorf ''failed to execute update for address set %q: %v''
                           [asDetail as] err), as, tr1 @ [ExecuteCall cmd])
              | None \<Rightarrow> (None, as\<lparr>ips := storeIPs ipl\<rparr>, tr1 @ [ExecuteCall cmd])))"

definition addIPs ::
  "((string \<times> IP) list \<Rightarrow> (string \<times> IP) list) \<Rightarrow> 'c Client \<Rightarrow> ovnAddressSet \<Rightarrow> IP list
     \<Rightarrow> 'c call list \<Rightarrow> error option \<times> ovnAddressSet \<times> 'c call list" where
  "addIPs rangeOrder nb as ipl tr =
     (let uniqIPs = filter (\<lambda>ip. map_of (ips as) (String ip) = None) ipl
      in if length uniqIPs = 0 then (None, as, tr)
         else
           (let ipStr = joinIPs uniqIPs;
                newIPs = uniqIPs @ allIPs rangeOrder as
            in case setIPs nb as newIPs tr of
                 (Some err, as', tr') \<Rightarrow>
                   (Some (Errorf ''failed to add IPs (%q) to address set %q: %v''
                            [ipStr, asDetail as'] err), as', tr')
               | (None, as', tr') \<Rightarrow> (None, as', tr')))"

text \<open>
  The second loop of \<^verbatim>\<open>deleteIPs\<close>, with the copy \<^verbatim>\<open>newMap\<close> of the cache and the
  slice \<^verbatim>\<open>newIPs\<close> built so far.
\<close>

fun deleteLoop ::
  "(string \<times> IP) list \<Rightarrow> IP list \<Rightarrow> IP list \<Rightarrow> (string \<times> IP) list \<times> IP list" where
  "deleteLoop newMap newIPs [] = (newMap, newIPs)"
| "deleteLoop newMap newIPs (ip # rest) =
     (if map_of newMap (String ip) \<noteq> None
      then deleteLoop (AList.delete (String ip) newMap) newIPs rest
      else deleteLoop newMap (newIPs @ [ip]) rest)"

definition deleteIPs ::
  "'c Client \<Rightarrow> ovnAddressSet \<Rightarrow> IP list \<Rightarrow> 'c call list
     \<Rightarrow> error option \<times> ovnAddressSet \<times> 'c call list" where
  "deleteIPs nb as ipl tr =
     (let newMap = ips as;
          newIPs = snd (deleteLoop newMap [] ipl);
          ipStr = joinIPs newIPs
      in case setIPs nb as newIPs tr of
           (Some err, as', tr') \<Rightarrow>
             (Some (Errorf ''failed to delete IPs (%q) to address set %q: %v''
                      [ipStr, asDetail as'] err), as', tr')
         | (None, as', tr') \<Rightarrow> (None, as', tr'))"

definition destroy ::
  "'c Client \<Rightarrow> ovnAddressSet \<Rightarrow> 'c call list
     \<Rightarrow> error option \<times> ovnAddressSet \<times> 'c call list" where
  "destroy nb as tr =
     (let tr1 = tr @ [ASDelCall (hashName as)]
      in case ASDel nb tr (hashName as) of
           Inl err \<Rightarrow>
             (Some (Errorf ''failed to create delete for address set %q: %v''
                      [asDetail as] err), as, tr1)
         | Inr cmd \<Rightarrow>
             (case Execute nb tr1 cmd of
                Some err \<Rightarrow>
                  (Some (Errorf ''failed to destroy address set %q: %v''
                           [asDetail as] err), as, tr1 @ [ExecuteCall cmd])
              | None \<Rightarrow> (None, as\<lparr>ips := []\<rparr>, tr1 @ [ExecuteCall cmd])))"

section \<open>The dual-stack address set\<close>

text \<open>
  \<^verbatim>\<open>ovnAddressSets\<close>. The two pointers are nil for a family that is switched off. The
  methods run under the lock of the struct, one at a time; each takes the struct and the
  trace and returns its error, the struct as the call left it and the trace.
\<close>

record ovnAddressSets =
  name :: string
  ipv4 :: "ovnAddressSet option"
  ipv6 :: "ovnAddressSet option"

definition GetASHashNames :: "ovnAddressSets \<Rightarrow> string \<times> string" where
  "GetASHashNames as =
     (let ipv4AS = (case ipv4 as of None \<Rightarrow> [] | Some s4 \<Rightarrow> hashName s4);
          ipv6AS = (case ipv6 as of None \<Rightarrow> [] | Some s6 \<Rightarrow> hashName s6)
      in (ipv4AS, ipv6AS))"

definition GetName :: "ovnAddressSets \<Rightarrow> string" where
  "GetName as = name as"

definition SetIPs ::
  "'c Client \<Rightarrow> ovnAddressSets \<Rightarrow> IP list \<Rightarrow> 'c call list
     \<Rightarrow> error option \<times> ovnAddressSets \<times> 'c call list" where
  "SetIPs nb as ipl tr =
     (let (v4ips, v6ips) = splitIPsByFamily ipl;
          (err, as1, tr1) =
            (case ipv6 as of
               None \<Rightarrow> (None, as, tr)
             | Some s6 \<Rightarrow>
                 (case setIPs nb s6 v6ips tr of
                    (e6, s6', tr') \<Rightarrow> (e6, as\<lparr>ipv6 := Some s6'\<rparr>, tr')))
      in case ipv4 as1 of
           None \<Rightarrow> (err, as1, tr1)
         | Some s4 \<Rightarrow>
             (case setIPs nb s4 v4ips tr1 of
                (e4, s4', tr2) \<Rightarrow> (Wrapf err ''%v'' e4, as1\<lparr>ipv4 := Some s4'\<rparr>, tr2)))"

definition AddIPs ::
  "((string \<times> IP) list \<Rightarrow> (string \<times> IP) list) \<Rightarrow> 'c Client \<Rightarrow> ovnAddressSets \<Rightarrow> IP list
     \<Rightarrow> 'c call list \<Rightarrow> error option \<times> ovnAddressSets \<times> 'c call list" where
  "AddIPs rangeOrder nb as ipl tr =
     (if length ipl = 0 then (None, as, tr)
      else
        (let (v4ips, v6ips) = splitIPsByFamily ipl
         in case (case ipv6 as of
                    None \<Rightarrow> (None, as, tr)
                  | Some s6 \<Rightarrow>
                      (case addIPs rangeOrder nb s6 v6ips tr of
                         (e6, s6', tr') \<Rightarrow> (e6, as\<lparr>ipv6 := Some s6'\<rparr>, tr'))) of
              (Some err, as1, tr1) \<Rightarrow>
                (Some (Errorf ''failed to AddIPs to the v6 set: %w'' [] err), as1, tr1)
            | (None, as1, tr1) \<Rightarrow>
                (case ipv4 as1 of
                   None \<Rightarrow> (None, as1, tr1)
                 | Some s4 \<Rightarrow>
                     (case addIPs rangeOrder nb s4 v4ips tr1 of
                        (Some err, s4', tr2) \<Rightarrow>
                          (Some (Errorf ''failed to AddIPs to the v4 set: %w'' [] err),
                           as1\<lparr>ipv4 := Some s4'\<rparr>, tr2)
                      | (None, s4', tr2) \<Rightarrow> (None, as1\<lparr>ipv4 := Some s4'\<rparr>, tr2)))))"

definition DeleteIPs ::
  "'c Client \<Rightarrow> ovnAddressSets \<Rightarrow> IP list \<Rightarrow> 'c call list
     \<Rightarrow> error option \<times> ovnAddressSets \<times> 'c call list" where
  "DeleteIPs nb as ipl tr =
     (if length ipl = 0 then (None, as, tr)
      else
        (let (v4ips, v6ips) = splitIPsByFamily ipl
         in case (case ipv6 as of
                    None \<Rightarrow> (None, as, tr)
                  | Some s6 \<Rightarrow>
                      (case deleteIPs nb s6 v6ips tr of
                         (e6, s6', tr') \<Rightarrow> (e6, as\<lparr>ipv6 := Some s6'\<rparr>, tr'))) of
              (Some err, as1, tr1) \<Rightarrow>
                (Some (Errorf ''failed to AddIPs to the v6 set: %w'' [] err), as1, tr1)
            | (None, as1, tr1) \<Rightarrow>
                (case ipv4 as1 of
                   None \<Rightarrow> (None, as1, tr1)
                 | Some s4 \<Rightarrow>
                     (case deleteIPs nb s4 v4ips tr1 of
                        (Some err, s4', tr2) \<Rightarrow>
                          (Some (Errorf ''failed to AddIPs to the v4 set: %w'' [] err),
                           as1\<lparr>ipv4 := Some s4'\<rparr>, tr2)
                      | (None, s4', tr2) \<Rightarrow> (None, as1\<lparr>ipv4 := Some s4'\<rparr>, tr2)))))"

definition Destroy ::
  "'c Client \<Rightarrow> ovnAddressSets \<Rightarrow> 'c call list
     \<Rightarrow> error option \<times> ovnAddressSets \<times> 'c call list" where
  "Destroy nb as tr =
     (case (case ipv4 as of
              None \<Rightarrow> (None, as, tr)
            | Some s4 \<Rightarrow>
                (case destroy nb s4 tr of
                   (e4, s4', tr') \<Rightarrow> (e4, as\<lparr>ipv4 := Some s4'\<rparr>, tr'))) of
        (Some err, as1, tr1) \<Rightarrow> (Some err, as1, tr1)
      | (None, as1, tr1) \<Rightarrow>
          (case ipv6 as1 of
             None \<Rightarrow> (None, as1, tr1)
           | Some s6 \<Rightarrow>
               (case destroy nb s6 tr1 of
                  (Some err, s6', tr2) \<Rightarrow> (Some err, as1\<lparr>ipv6 := Some s6'\<rparr>, tr2)
                | (None, s6', tr2) \<Rightarrow> (None, as1\<lparr>ipv6 := Some s6'\<rparr>, tr2))))"

section \<open>Construction\<close>

definition newOvnAddressSet ::
  "(string \<Rightarrow> string) \<Rightarrow> 'c Client \<Rightarrow> string \<Rightarrow> IP list \<Rightarrow> 'c call list
     \<Rightarrow> (error + ovnAddressSet) \<times> 'c call list" where
  "newOvnAddressSet HashForOVN nb nm ipl tr =
     (let as = \<lparr>ovnAddressSet.name = nm, hashName = hashedAddressSet HashForOVN nm,
                uuid = [], ips = storeIPs ipl\<rparr>;
          tr1 = tr @ [ASGetCall (hashName as)]
      in case ASGet nb tr (hashName as) of
           Some err \<Rightarrow>
             (if err \<noteq> ErrorNotFound \<and> err \<noteq> ErrorSchema
              then (Inl (Errorf ''failed to get address set %q: %v'' [nm] err), tr1)
              else
                (let members = ipsToStringArray ipl;
                     tr2 = tr1 @ [ASAddCall (hashName as) members [(''name'', nm)]]
                 in case ASAdd nb tr1 (hashName as) members [(''name'', nm)] of
                      Inl err \<Rightarrow>
                        (Inl (Errorf ''failed to create address set %q: %v'' [nm] err), tr2)
                    | Inr cmd \<Rightarrow>
                        (case Execute nb tr2 cmd of
                           Some err \<Rightarrow>
                             (Inl (Errorf ''failed to create address set %q: %v''
                                     [asDetail as] err), tr2 @ [ExecuteCall cmd])
                         | None \<Rightarrow> (Inr as, tr2 @ [ExecuteCall cmd]))))
         | None \<Rightarrow>
             (case setIPs nb as ipl tr1 of
                (Some err, as', tr') \<Rightarrow> (Inl err, tr')
              | (None, as', tr') \<Rightarrow> (Inr as', tr')))"

text \<open>
  \<^verbatim>\<open>newOvnAddressSets\<close> reads \<^verbatim>\<open>config.IPv4Mode\<close> and \<^verbatim>\<open>config.IPv6Mode\<close>, two
  booleans of the process configuration; they are the parameters \<open>IPv4Mode\<close> and
  \<open>IPv6Mode\<close>.
\<close>

definition newOvnAddressSets ::
  "bool \<Rightarrow> bool \<Rightarrow> (string \<Rightarrow> string) \<Rightarrow> 'c Client \<Rightarrow> string \<Rightarrow> IP list \<Rightarrow> 'c call list
     \<Rightarrow> (error + ovnAddressSets) \<times> 'c call list" where
  "newOvnAddressSets IPv4Mode IPv6Mode HashForOVN nb nm ipl tr =
     (let (v4IPs, v6IPs) = splitIPsByFamily ipl;
          (ip4ASName, ip6ASName) = MakeAddressSetName nm
      in case (if IPv4Mode
               then (case newOvnAddressSet HashForOVN nb ip4ASName v4IPs tr of
                       (Inl err, tr') \<Rightarrow> (Inl err, tr')
                     | (Inr s4, tr') \<Rightarrow> (Inr (Some s4), tr'))
               else (Inr None, tr)) of
           (Inl err, tr1) \<Rightarrow> (Inl err, tr1)
         | (Inr v4set, tr1) \<Rightarrow>
             (case (if IPv6Mode
                    then (case newOvnAddressSet HashForOVN nb ip6ASName v6IPs tr1 of
                            (Inl err, tr') \<Rightarrow> (Inl err, tr')
                          | (Inr s6, tr') \<Rightarrow> (Inr (Some s6), tr'))
                    else (Inr None, tr1)) of
                (Inl err, tr2) \<Rightarrow> (Inl err, tr2)
              | (Inr v6set, tr2) \<Rightarrow>
                  (Inr \<lparr>ovnAddressSets.name = nm, ipv4 = v4set, ipv6 = v6set\<rparr>, tr2)))"

section \<open>The factory\<close>

definition NewAddressSet ::
  "bool \<Rightarrow> bool \<Rightarrow> (string \<Rightarrow> string) \<Rightarrow> 'c Client \<Rightarrow> string \<Rightarrow> IP list \<Rightarrow> 'c call list
     \<Rightarrow> (error + ovnAddressSets) \<times> 'c call list" where
  "NewAddressSet IPv4Mode IPv6Mode HashForOVN nb nm ipl tr =
     (case newOvnAddressSets IPv4Mode IPv6Mode HashForOVN nb nm ipl tr of
        (Inl err, tr') \<Rightarrow> (Inl err, tr')
      | (Inr res, tr') \<Rightarrow> (Inr res, tr'))"

text \<open>
  \<^verbatim>\<open>strings.Split(s, sep)\<close> for a separator of one byte, the only use in the package
  (\<^verbatim>\<open>"."\<close>). The result is never empty: \<^verbatim>\<open>Split("", ".")\<close> is \<^verbatim>\<open>[""]\<close>.
\<close>

fun Split :: "string \<Rightarrow> char \<Rightarrow> string list" where
  "Split [] sep = [[]]"
| "Split (c # cs) sep =
     (if c = sep then [] # Split cs sep
      else (case Split cs sep of
              [] \<Rightarrow> [[c]]
            | w # ws \<Rightarrow> (c # w) # ws))"

text \<open>
  The loop of \<^verbatim>\<open>ForEachAddressSet\<close> over the listing. \<^verbatim>\<open>iteratorFn\<close> is a callback
  of the caller; the loop returns the calls it makes to it, each with its three
  arguments, in order. \<^verbatim>\<open>continue\<close> goes on with the rest of the listing and
  \<^verbatim>\<open>break\<close> ends the loop. The insertion into \<^verbatim>\<open>processedAddressSets\<close> is followed by
  \<^verbatim>\<open>break\<close> on every path, so no later iteration sees the set again.
\<close>

fun forEachLoop :: "string set \<Rightarrow> AddressSet list \<Rightarrow> (string \<times> string \<times> string) list" where
  "forEachLoop processedAddressSets [] = []"
| "forEachLoop processedAddressSets (s # rest) =
     (case ExternalID s ''name'' of
        None \<Rightarrow> forEachLoop processedAddressSets rest
      | Some OtherVal \<Rightarrow> forEachLoop processedAddressSets rest
      | Some (StringVal nm) \<Rightarrow>
          (let addrSetName = truncateSuffixFromAddressSet nm
           in if addrSetName \<in> processedAddressSets then []
              else
                (let names = Split addrSetName (CHR ''.'');
                     addrSetNamespace = hd names;
                     nameSuffix = (if length names \<ge> 2 then names ! 1 else [])
                 in [(addrSetName, addrSetNamespace, nameSuffix)])))"

definition ForEachAddressSet ::
  "'c Client \<Rightarrow> 'c call list
     \<Rightarrow> error option \<times> (string \<times> string \<times> string) list \<times> 'c call list" where
  "ForEachAddressSet nb tr =
     (case ASList nb tr of
        (addrSets, None) \<Rightarrow> (None, forEachLoop {} addrSets, tr @ [ASListCall])
      | (addrSets, Some err) \<Rightarrow>
          (if err \<noteq> ErrorSchema
           then (Some (Errorf ''error reading address sets: %v'' [] err), [],
                 tr @ [ASListCall])
           else (None, forEachLoop {} addrSets, tr @ [ASListCall])))"

definition destroyAddressSet ::
  "(string \<Rightarrow> string) \<Rightarrow> 'c Client \<Rightarrow> string \<Rightarrow> 'c call list
     \<Rightarrow> error option \<times> 'c call list" where
  "destroyAddressSet HashForOVN nb nm tr =
     (let hashName = hashedAddressSet HashForOVN nm;
          tr1 = tr @ [ASDelCall hashName]
      in case ASDel nb tr hashName of
           Inl err \<Rightarrow>
             (Some (Errorf ''failed to create delete cmd for address set %q: %v''
                      [hashName] err), tr1)
         | Inr cmd \<Rightarrow>
             (case Execute nb tr1 cmd of
                Some err \<Rightarrow>
                  (if err \<noteq> ErrorNotFound
                   then (Some (Errorf ''failed to destroy address set %q: %v''
                                 [hashName] err), tr1 @ [ExecuteCall cmd])
                   else (None, tr1 @ [ExecuteCall cmd]))
              | None \<Rightarrow> (None, tr1 @ [ExecuteCall cmd])))"

definition DestroyAddressSetInBackingStore ::
  "(string \<Rightarrow> string) \<Rightarrow> 'c Client \<Rightarrow> string \<Rightarrow> 'c call list
     \<Rightarrow> error option \<times> 'c call list" where
  "DestroyAddressSetInBackingStore HashForOVN nb nm tr =
     (case destroyAddressSet HashForOVN nb nm tr of
        (Some err, tr1) \<Rightarrow> (Some err, tr1)
      | (None, tr1) \<Rightarrow>
          (let (ip4ASName, ip6ASName) = MakeAddressSetName nm
           in case destroyAddressSet HashForOVN nb ip4ASName tr1 of
                (Some err, tr2) \<Rightarrow> (Some err, tr2)
              | (None, tr2) \<Rightarrow>
                  (case destroyAddressSet HashForOVN nb ip6ASName tr2 of
                     (Some err, tr3) \<Rightarrow> (Some err, tr3)
                   | (None, tr3) \<Rightarrow> (None, tr3))))"

section \<open>Vocabulary of the properties\<close>

text \<open>
  A replace, a create or a delete is two calls: the builder (\<^verbatim>\<open>ASUpdate\<close>,
  \<^verbatim>\<open>ASAdd\<close>, \<^verbatim>\<open>ASDel\<close>) and \<^verbatim>\<open>Execute\<close> on the command it returns. Each of the
  three predicates says that, after the calls \<open>tr\<close>, both calls return without an error.
\<close>

definition replaceSucceeds ::
  "'c Client \<Rightarrow> 'c call list \<Rightarrow> string \<Rightarrow> string list \<Rightarrow> (string \<times> string) list \<Rightarrow> bool" where
  "replaceSucceeds nb tr h members meta =
     (case ASUpdate nb tr h members meta of
        Inl err \<Rightarrow> False
      | Inr cmd \<Rightarrow> Execute nb (tr @ [ASUpdateCall h members meta]) cmd = None)"

definition createSucceeds ::
  "'c Client \<Rightarrow> 'c call list \<Rightarrow> string \<Rightarrow> string list \<Rightarrow> (string \<times> string) list \<Rightarrow> bool" where
  "createSucceeds nb tr h members meta =
     (case ASAdd nb tr h members meta of
        Inl err \<Rightarrow> False
      | Inr cmd \<Rightarrow> Execute nb (tr @ [ASAddCall h members meta]) cmd = None)"

text \<open>
  A row of the listing that \<^verbatim>\<open>ForEachAddressSet\<close> does not skip: its metadata has the
  key \<open>name\<close> with a string value, \<open>stringName\<close>.
\<close>

definition hasStringName :: "AddressSet \<Rightarrow> bool" where
  "hasStringName s =
     (case ExternalID s ''name'' of Some (StringVal nm) \<Rightarrow> True | _ \<Rightarrow> False)"

definition stringName :: "AddressSet \<Rightarrow> string" where
  "stringName s = (case ExternalID s ''name'' of Some (StringVal nm) \<Rightarrow> nm | _ \<Rightarrow> [])"

text \<open>
  The number of visits as the specification words it: one if the listing is not empty and
  its first row has a string name, none otherwise.
\<close>

definition visitsByFirstRow :: "AddressSet list \<Rightarrow> nat" where
  "visitsByFirstRow rows =
     (case rows of [] \<Rightarrow> 0 | s # rest \<Rightarrow> if hasStringName s then 1 else 0)"

text \<open>
  A method of a family set called through a pointer that may be nil, as the dual-stack
  methods do under \<^verbatim>\<open>if as.ipv6 != nil\<close> and \<^verbatim>\<open>if as.ipv4 != nil\<close>: with a nil
  pointer nothing is called, there is no error and the trace stays as it is.
\<close>

definition onFamily ::
  "'a option \<Rightarrow> ('a \<Rightarrow> 't \<Rightarrow> 'e option \<times> 'a \<times> 't) \<Rightarrow> 't \<Rightarrow> 'e option \<times> 'a option \<times> 't" where
  "onFamily family method tr =
     (case family of
        None \<Rightarrow> (None, None, tr)
      | Some s \<Rightarrow> (case method s tr of (err, s', tr') \<Rightarrow> (err, Some s', tr')))"

text \<open>
  The construction of a family set under its mode flag, as \<^verbatim>\<open>newOvnAddressSets\<close> does
  under \<^verbatim>\<open>if config.IPv4Mode\<close> and \<^verbatim>\<open>if config.IPv6Mode\<close>: with the flag off nothing
  is constructed and the pointer stays nil.
\<close>

definition whenMode ::
  "bool \<Rightarrow> ('t \<Rightarrow> ('e + 'a) \<times> 't) \<Rightarrow> 't \<Rightarrow> ('e + 'a option) \<times> 't" where
  "whenMode mode construct tr =
     (if mode
      then (case construct tr of
              (Inl err, tr') \<Rightarrow> (Inl err, tr')
            | (Inr s, tr') \<Rightarrow> (Inr (Some s), tr'))
      else (Inr None, tr))"

text \<open>
  A call that hands the member \<open>m\<close> to the client for a family set: a create or a
  replace whose member list contains \<open>m\<close>.
\<close>

fun carries :: "string \<Rightarrow> 'c call \<Rightarrow> bool" where
  "carries m (ASAddCall h ms meta) = (m \<in> set ms)"
| "carries m (ASUpdateCall h ms meta) = (m \<in> set ms)"
| "carries m c = False"

text \<open>The members of the cache: the string forms that are its keys.\<close>

definition members :: "ovnAddressSet \<Rightarrow> string set" where
  "members as = fst ` set (ips as)"

text \<open>
  Every entry that the package stores in a cache has the string form of its address as
  its key, and a Go map holds a key once.
\<close>

definition keyedByString :: "(string \<times> IP) list \<Rightarrow> bool" where
  "keyedByString m = (distinct (map fst m) \<and> list_all (\<lambda>(k, ip). k = String ip) m)"

section \<open>Clients and addresses of the examples\<close>

text \<open>
  The commands of these clients are strings: a builder returns the hashed name it was
  given. \<open>okClient\<close> answers every call without an error and lists nothing.
\<close>

definition okClient :: "string Client" where
  "okClient =
     \<lparr>ASGet = (\<lambda>tr h. None),
      ASAdd = (\<lambda>tr h ms meta. Inr h),
      ASUpdate = (\<lambda>tr h ms meta. Inr h),
      ASDel = (\<lambda>tr h. Inr h),
      ASList = (\<lambda>tr. ([], None)),
      Execute = (\<lambda>tr cmd. None)\<rparr>"

text \<open>A client whose \<^verbatim>\<open>Execute\<close> fails on the commands for the name \<open>bad\<close> only.\<close>

definition failingClient :: "string \<Rightarrow> error \<Rightarrow> string Client" where
  "failingClient bad err =
     okClient\<lparr>Execute := (\<lambda>tr cmd. if cmd = bad then Some err else None)\<rparr>"

text \<open>A client whose \<^verbatim>\<open>ASGet\<close> finds no address set.\<close>

definition notFoundClient :: "string Client" where
  "notFoundClient = okClient\<lparr>ASGet := (\<lambda>tr h. Some ErrorNotFound)\<rparr>"

text \<open>A client that lists the given rows.\<close>

definition listingClient :: "AddressSet list \<Rightarrow> string Client" where
  "listingClient rows = okClient\<lparr>ASList := (\<lambda>tr. (rows, None))\<rparr>"

text \<open>A row with the given name in its metadata, and a row without metadata.\<close>

definition namedRow :: "string \<Rightarrow> AddressSet" where
  "namedRow nm =
     \<lparr>UUID = [], Name = CHR ''h'' # nm, Addresses = [],
      ExternalID = [''name'' \<mapsto> StringVal nm]\<rparr>"

definition unnamedRow :: AddressSet where
  "unnamedRow = \<lparr>UUID = [], Name = ''h0'', Addresses = [], ExternalID = Map.empty\<rparr>"

definition ip_10_0_0_1 :: IP where
  "ip_10_0_0_1 = \<lparr>bytes = [10, 0, 0, 1], String = ''10.0.0.1'', IsIPv6 = False\<rparr>"

definition ip_10_0_0_2 :: IP where
  "ip_10_0_0_2 = \<lparr>bytes = [10, 0, 0, 2], String = ''10.0.0.2'', IsIPv6 = False\<rparr>"

definition ip_10_0_0_3 :: IP where
  "ip_10_0_0_3 = \<lparr>bytes = [10, 0, 0, 3], String = ''10.0.0.3'', IsIPv6 = False\<rparr>"

definition ip_2001_db8_1 :: IP where
  "ip_2001_db8_1 =
     \<lparr>bytes = [0x20, 0x01, 0x0d, 0xb8, 0, 0, 0, 0, 0, 0, 0, 0, 0, 0, 0, 1],
      String = ''2001:db8::1'', IsIPv6 = True\<rparr>"

text \<open>The two family sets of the logical name \<open>ns1\<close>, with hashed names \<open>h4\<close> and \<open>h6\<close>.\<close>

definition set4 :: "IP list \<Rightarrow> ovnAddressSet" where
  "set4 ipl = \<lparr>ovnAddressSet.name = ''ns1_v4'', hashName = ''h4'', uuid = [],
               ips = storeIPs ipl\<rparr>"

definition set6 :: "IP list \<Rightarrow> ovnAddressSet" where
  "set6 ipl = \<lparr>ovnAddressSet.name = ''ns1_v6'', hashName = ''h6'', uuid = [],
               ips = storeIPs ipl\<rparr>"

definition dualSet :: "IP list \<Rightarrow> IP list \<Rightarrow> ovnAddressSets" where
  "dualSet v4 v6 = \<lparr>ovnAddressSets.name = ''ns1'', ipv4 = Some (set4 v4), ipv6 = Some (set6 v6)\<rparr>"

text \<open>The set of the logical name \<open>ns1\<close> with the v6 family switched off.\<close>

definition v4OnlySet :: "IP list \<Rightarrow> ovnAddressSets" where
  "v4OnlySet v4 = \<lparr>ovnAddressSets.name = ''ns1'', ipv4 = Some (set4 v4), ipv6 = None\<rparr>"

section \<open>Properties of the names\<close>

lemma HasSuffix_append: "HasSuffix (n @ s) s"
  by (simp add: HasSuffix_def)

lemma TrimSuffix_append: "TrimSuffix (n @ s) s = n"
  by (simp add: TrimSuffix_def HasSuffix_append)

lemma no_v4_suffix_of_v6: "\<not> HasSuffix (n @ ''_v6'') ''_v4''"
proof
  assume "HasSuffix (n @ ''_v6'') ''_v4''"
  then have "drop (length n) (n @ ''_v6'') = ''_v4''"
    by (simp add: HasSuffix_def)
  then show False by simp
qed

text \<open>
  C9. The two family names of a logical name \<open>n\<close> are \<open>n\<close> followed by \<open>_v4\<close> and
  \<open>n\<close> followed by \<open>_v6\<close>, they differ for every \<open>n\<close>, truncating either of them
  gives \<open>n\<close> back, and a name that ends in neither suffix is returned as it is.
\<close>

theorem family_names_and_truncation:
  "MakeAddressSetName n = (n @ ''_v4'', n @ ''_v6'')
   \<and> fst (MakeAddressSetName n) \<noteq> snd (MakeAddressSetName n)
   \<and> truncateSuffixFromAddressSet (fst (MakeAddressSetName n)) = n
   \<and> truncateSuffixFromAddressSet (snd (MakeAddressSetName n)) = n
   \<and> (\<not> HasSuffix raw ''_v4'' \<and> \<not> HasSuffix raw ''_v6''
        \<longrightarrow> truncateSuffixFromAddressSet raw = raw)"
proof -
  have names: "MakeAddressSetName n = (n @ ''_v4'', n @ ''_v6'')"
    by (simp add: MakeAddressSetName_def ipv4AddressSetSuffix_def ipv6AddressSetSuffix_def)
  have v4: "truncateSuffixFromAddressSet (n @ ''_v4'') = n"
    unfolding truncateSuffixFromAddressSet_def ipv4AddressSetSuffix_def
    using HasSuffix_append [of n "''_v4''"] TrimSuffix_append [of n "''_v4''"]
    by simp
  have v6: "truncateSuffixFromAddressSet (n @ ''_v6'') = n"
    unfolding truncateSuffixFromAddressSet_def ipv4AddressSetSuffix_def
      ipv6AddressSetSuffix_def
    using no_v4_suffix_of_v6 [of n] HasSuffix_append [of n "''_v6''"]
      TrimSuffix_append [of n "''_v6''"]
    by simp
  have plain: "\<not> HasSuffix raw ''_v4'' \<and> \<not> HasSuffix raw ''_v6''
      \<longrightarrow> truncateSuffixFromAddressSet raw = raw"
    by (simp add: truncateSuffixFromAddressSet_def ipv4AddressSetSuffix_def
        ipv6AddressSetSuffix_def)
  from names v4 v6 plain show ?thesis by simp
qed

theorem family_names_and_truncation_witness:
  "MakeAddressSetName ''ns1'' = (''ns1_v4'', ''ns1_v6'')
   \<and> truncateSuffixFromAddressSet ''ns1_v4'' = ''ns1''
   \<and> truncateSuffixFromAddressSet ''ns1_v6'' = ''ns1''
   \<and> \<not> HasSuffix ''ns1.egress'' ''_v4'' \<and> \<not> HasSuffix ''ns1.egress'' ''_v6''
   \<and> truncateSuffixFromAddressSet ''ns1.egress'' = ''ns1.egress''"
proof -
  have h: "\<not> HasSuffix ''ns1.egress'' ''_v4'' \<and> \<not> HasSuffix ''ns1.egress'' ''_v6''"
    by (simp add: HasSuffix_def)
  show ?thesis
    using h family_names_and_truncation [of "''ns1''" "''ns1.egress''"]
    by auto
qed

section \<open>Properties of the split\<close>

lemma splitLoop_filter:
  "splitLoop v4 v6 ipl =
     (v4 @ filter (\<lambda>ip. \<not> IsIPv6 ip) ipl, v6 @ filter IsIPv6 ipl)"
  by (induction ipl arbitrary: v4 v6) simp_all

lemma splitIPsByFamily_filter:
  "splitIPsByFamily ipl = (filter (\<lambda>ip. \<not> IsIPv6 ip) ipl, filter IsIPv6 ipl)"
  by (simp add: splitIPsByFamily_def splitLoop_filter)

section \<open>The replace primitive and the cache\<close>


lemma storeIPs_snoc: "storeIPs (ipl @ [x]) = AList.update (String x) x (storeIPs ipl)"
  by (simp add: storeIPs_def)

lemma storeIPs_Nil: "storeIPs [] = []"
  by (simp add: storeIPs_def)

lemma storeIPs_keys: "fst ` set (storeIPs ipl) = String ` set ipl"
proof (induction ipl rule: rev_induct)
  case Nil
  show ?case by (simp add: storeIPs_Nil)
next
  case (snoc x xs)
  then show ?case by (simp add: storeIPs_snoc dom_update)
qed

lemma storeIPs_distinct: "distinct (map fst (storeIPs ipl))"
proof (induction ipl rule: rev_induct)
  case Nil
  show ?case by (simp add: storeIPs_Nil)
next
  case (snoc x xs)
  then show ?case by (simp add: storeIPs_snoc distinct_update)
qed

lemma list_all_update:
  "P (k, v) \<Longrightarrow> list_all P al \<Longrightarrow> list_all P (AList.update k v al)"
  by (induction al) auto

lemma storeIPs_keyed: "list_all (\<lambda>(k, ip). k = String ip) (storeIPs ipl)"
proof (induction ipl rule: rev_induct)
  case Nil
  show ?case by (simp add: storeIPs_Nil)
next
  case (snoc x xs)
  then show ?case by (simp add: storeIPs_snoc list_all_update)
qed

lemma storeIPs_keyedByString: "keyedByString (storeIPs ipl)"
  by (simp add: keyedByString_def storeIPs_distinct storeIPs_keyed)

lemma storeIPs_map_of:
  "map_of (storeIPs ipl) = map_of (map (\<lambda>ip. (String ip, ip)) (rev ipl))"
proof (induction ipl rule: rev_induct)
  case Nil
  show ?case by (simp add: storeIPs_Nil)
next
  case (snoc x xs)
  then show ?case by (simp add: storeIPs_snoc update_conv')
qed

lemma setIPs_cases:
  "setIPs nb as ipl tr =
     (if replaceSucceeds nb tr (hashName as) (ipsToStringArray ipl) [(''name'', ovnAddressSet.name as)]
      then (None, as\<lparr>ips := storeIPs ipl\<rparr>, snd (snd (setIPs nb as ipl tr)))
      else (fst (setIPs nb as ipl tr), as, snd (snd (setIPs nb as ipl tr))))"
  by (simp add: setIPs_def replaceSucceeds_def Let_def split: sum.splits option.splits)

lemma setIPs_err:
  "(fst (setIPs nb as ipl tr) = None) =
     replaceSucceeds nb tr (hashName as) (ipsToStringArray ipl) [(''name'', ovnAddressSet.name as)]"
  by (simp add: setIPs_def replaceSucceeds_def Let_def split: sum.splits option.splits)

text \<open>
  C7. \<open>setIPs\<close> returns no error exactly when the replace command builds and executes
  without error. When it returns an error the set, and with it the cache, is as before.
  When it returns no error the cache is the one stored from the new addresses alone: its
  keys are their string forms, each once, and each key holds the last address of the list
  with that string form.
\<close>

theorem setIPs_cache_all_or_nothing:
  assumes "setIPs nb as ipl tr = (err, as', tr')"
  shows "((err = None) =
            replaceSucceeds nb tr (hashName as) (ipsToStringArray ipl)
              [(''name'', ovnAddressSet.name as)])
         \<and> (err \<noteq> None \<longrightarrow> as' = as)
         \<and> (err = None \<longrightarrow>
               as' = as\<lparr>ips := storeIPs ipl\<rparr>
               \<and> members as' = String ` set ipl
               \<and> keyedByString (ips as')
               \<and> map_of (ips as') = map_of (map (\<lambda>ip. (String ip, ip)) (rev ipl)))"
proof -
  let ?ok = "replaceSucceeds nb tr (hashName as) (ipsToStringArray ipl)
        [(''name'', ovnAddressSet.name as)]"
  from assms have err: "(err = None) = ?ok"
    using setIPs_err [of nb as ipl tr] by simp
  show ?thesis
  proof (cases ?ok)
    case True
    with assms have "as' = as\<lparr>ips := storeIPs ipl\<rparr>"
      using setIPs_cases [of nb as ipl tr] by simp
    then show ?thesis
      using err True
      by (simp add: members_def storeIPs_keys storeIPs_keyedByString storeIPs_map_of)
  next
    case False
    with assms have "as' = as"
      using setIPs_cases [of nb as ipl tr] by simp
    then show ?thesis
      using err False by auto
  qed
qed

theorem setIPs_cache_all_or_nothing_witness:
  "setIPs okClient (set4 [ip_10_0_0_1]) [ip_10_0_0_2, ip_10_0_0_2] []
     = (None, set4 [ip_10_0_0_2],
        [ASUpdateCall ''h4'' [''10.0.0.2'', ''10.0.0.2''] [(''name'', ''ns1_v4'')],
         ExecuteCall ''h4''])
   \<and> ips (set4 [ip_10_0_0_2]) = [(''10.0.0.2'', ip_10_0_0_2)]
   \<and> setIPs (failingClient ''h4'' (ErrorOther ''boom'')) (set4 [ip_10_0_0_1])
        [ip_10_0_0_2, ip_10_0_0_2] []
     = (Some (Errorf ''failed to execute update for address set %q: %v'' [''/ns1_v4/h4'']
                (ErrorOther ''boom'')),
        set4 [ip_10_0_0_1],
        [ASUpdateCall ''h4'' [''10.0.0.2'', ''10.0.0.2''] [(''name'', ''ns1_v4'')],
         ExecuteCall ''h4''])"
proof -
  have ok: "setIPs okClient (set4 [ip_10_0_0_1]) [ip_10_0_0_2, ip_10_0_0_2] []
     = (None, set4 [ip_10_0_0_2],
        [ASUpdateCall ''h4'' [''10.0.0.2'', ''10.0.0.2''] [(''name'', ''ns1_v4'')],
         ExecuteCall ''h4''])"
    by (simp add: setIPs_def okClient_def set4_def storeIPs_def ipsToStringArray_def
        ip_10_0_0_1_def ip_10_0_0_2_def)
  have bad: "setIPs (failingClient ''h4'' (ErrorOther ''boom'')) (set4 [ip_10_0_0_1])
        [ip_10_0_0_2, ip_10_0_0_2] []
     = (Some (Errorf ''failed to execute update for address set %q: %v'' [''/ns1_v4/h4'']
                (ErrorOther ''boom'')),
        set4 [ip_10_0_0_1],
        [ASUpdateCall ''h4'' [''10.0.0.2'', ''10.0.0.2''] [(''name'', ''ns1_v4'')],
         ExecuteCall ''h4''])"
    by (simp add: setIPs_def failingClient_def okClient_def set4_def storeIPs_def
        ipsToStringArray_def asDetail_def ip_10_0_0_1_def ip_10_0_0_2_def)
  have cache: "ips (set4 [ip_10_0_0_2]) = [(''10.0.0.2'', ip_10_0_0_2)]"
    by (simp add: set4_def storeIPs_def ip_10_0_0_2_def)
  from setIPs_cache_all_or_nothing [OF ok] setIPs_cache_all_or_nothing [OF bad] ok bad cache
  show ?thesis by simp
qed

section \<open>Adding addresses\<close>


lemma keyed_values: "keyedByString m \<Longrightarrow> String ` snd ` set m = fst ` set m"
  by (force simp: keyedByString_def list_all_iff)

lemma uniqIPs_empty:
  "(filter (\<lambda>ip. map_of (ips as) (String ip) = None) ipl = [])
     = (String ` set ipl \<subseteq> members as)"
  by (auto simp: members_def filter_empty_conv map_of_eq_None_iff)

lemma uniqIPs_strings:
  "String ` set (filter (\<lambda>ip. map_of (ips as) (String ip) = None) ipl)
     = String ` set ipl - members as"
  by (auto simp: members_def map_of_eq_None_iff)

lemma setIPs_result:
  "setIPs nb as ipl tr = (err, as', tr') \<Longrightarrow>
     (err = None \<longrightarrow> as' = as\<lparr>ips := storeIPs ipl\<rparr>)
     \<and> (err \<noteq> None \<longrightarrow> as' = as)
     \<and> (\<exists>rest. tr' = tr @ ASUpdateCall (hashName as) (ipsToStringArray ipl)
                          [(''name'', ovnAddressSet.name as)] # rest
               \<and> (rest = [] \<or> (\<exists>cmd. rest = [ExecuteCall cmd])))"
  by (auto simp: setIPs_def Let_def split: sum.splits option.splits)

lemma addIPs_noop:
  "String ` set ipl \<subseteq> members as \<Longrightarrow> addIPs rangeOrder nb as ipl tr = (None, as, tr)"
  using uniqIPs_empty [of as ipl] by (simp add: addIPs_def)

lemma addIPs_replace:
  assumes "\<not> String ` set ipl \<subseteq> members as"
  shows "addIPs rangeOrder nb as ipl tr =
     (case setIPs nb as
             (filter (\<lambda>ip. map_of (ips as) (String ip) = None) ipl @ allIPs rangeOrder as) tr of
        (e, as', tr') \<Rightarrow>
          (map_option (Errorf ''failed to add IPs (%q) to address set %q: %v''
               [joinIPs (filter (\<lambda>ip. map_of (ips as) (String ip) = None) ipl), asDetail as']) e,
           as', tr'))"
  using assms uniqIPs_empty [of as ipl]
  by (simp add: addIPs_def Let_def split: prod.splits option.splits)

lemma storeIPs_values: "snd ` set (storeIPs ipl) \<subseteq> set ipl"
proof
  fix v assume "v \<in> snd ` set (storeIPs ipl)"
  then obtain k where "(k, v) \<in> set (storeIPs ipl)" by force
  then have "map_of (storeIPs ipl) k = Some v"
    using storeIPs_distinct [of ipl] by simp
  then have "map_of (map (\<lambda>ip. (String ip, ip)) (rev ipl)) k = Some v"
    by (simp add: storeIPs_map_of)
  then have "(k, v) \<in> set (map (\<lambda>ip. (String ip, ip)) (rev ipl))"
    by (rule map_of_SomeD)
  then show "v \<in> set ipl" by auto
qed

text \<open>
  C6. Take a set whose cache is keyed by string form and any order of iteration over the
  cache. If the string form of every address given to \<open>addIPs\<close> is a member already,
  the call returns no error, leaves the set as it is and makes no call to the client.
  Otherwise it makes one \<^verbatim>\<open>ASUpdate\<close> call, followed at most by the \<^verbatim>\<open>Execute\<close> of the
  command built; the members it carries are the members of the cache together with the
  string forms of the given addresses, and the call returns no error exactly when this
  replace builds and executes without error. When it returns no error, only the cache of
  the set has changed: its members are that union, each key once, and every address in
  it was given or was cached before. When it returns an error the set is as before.
\<close>

theorem addIPs_noop_or_one_replace:
  assumes order: "\<And>m. set (rangeOrder m) = set m"
      and keyed: "keyedByString (ips as)"
      and run: "addIPs rangeOrder nb as ipl tr = (err, as', tr')"
  shows "(String ` set ipl \<subseteq> members as \<longrightarrow> err = None \<and> as' = as \<and> tr' = tr)
       \<and> (\<not> String ` set ipl \<subseteq> members as \<longrightarrow>
            (\<exists>ms rest. tr' = tr @ ASUpdateCall (hashName as) ms
                                 [(''name'', ovnAddressSet.name as)] # rest
                      \<and> (rest = [] \<or> (\<exists>cmd. rest = [ExecuteCall cmd]))
                      \<and> set ms = members as \<union> String ` set ipl
                      \<and> (err = None) =
                          replaceSucceeds nb tr (hashName as) ms
                            [(''name'', ovnAddressSet.name as)])
            \<and> (err = None \<longrightarrow>
                  members as' = members as \<union> String ` set ipl
                  \<and> keyedByString (ips as')
                  \<and> as' = as\<lparr>ips := ips as'\<rparr>
                  \<and> snd ` set (ips as') \<subseteq> set ipl \<union> snd ` set (ips as))
            \<and> (err \<noteq> None \<longrightarrow> as' = as))"
proof (cases "String ` set ipl \<subseteq> members as")
  case True
  with run show ?thesis
    using addIPs_noop [of ipl as rangeOrder nb tr] by simp
next
  case False
  let ?uniq = "filter (\<lambda>ip. map_of (ips as) (String ip) = None) ipl"
  let ?new = "?uniq @ allIPs rangeOrder as"
  let ?meta = "[(''name'', ovnAddressSet.name as)]"
  obtain e s t where set: "setIPs nb as ?new tr = (e, s, t)"
    by (cases "setIPs nb as ?new tr") auto
  from run False set have res: "err = map_option (Errorf ''failed to add IPs (%q) to address set %q: %v''
               [joinIPs ?uniq, asDetail s]) e" "as' = s" "tr' = t"
    using addIPs_replace [of ipl as rangeOrder nb tr] by auto
  from res(1) have errs: "(err = None) = (e = None)" by simp
  have strs': "String ` set ?new = members as \<union> String ` set ipl"
  proof -
    have "String ` set (allIPs rangeOrder as) = members as"
      using keyed_values [OF keyed] order [of "ips as"]
      by (simp add: allIPs_def members_def)
    then show ?thesis
      using uniqIPs_strings [of as ipl]
      by (auto simp: image_Un)
  qed
  then have strs: "set (ipsToStringArray ?new) = members as \<union> String ` set ipl"
    by (simp only: ipsToStringArray_def set_map)
  have vals: "set ?new \<subseteq> set ipl \<union> snd ` set (ips as)"
    using order [of "ips as"] by (auto simp: allIPs_def)
  from setIPs_result [OF set] obtain rest where
    tr: "t = tr @ ASUpdateCall (hashName as) (ipsToStringArray ?new) ?meta # rest"
      "rest = [] \<or> (\<exists>cmd. rest = [ExecuteCall cmd])"
    and ok: "e = None \<longrightarrow> s = as\<lparr>ips := storeIPs ?new\<rparr>"
    and bad: "e \<noteq> None \<longrightarrow> s = as"
    by blast
  have succ: "(err = None) = replaceSucceeds nb tr (hashName as) (ipsToStringArray ?new) ?meta"
    using setIPs_err [of nb as ?new tr] set errs by simp
  have trace: "\<exists>ms rest. tr' = tr @ ASUpdateCall (hashName as) ms ?meta # rest
                      \<and> (rest = [] \<or> (\<exists>cmd. rest = [ExecuteCall cmd]))
                      \<and> set ms = members as \<union> String ` set ipl
                      \<and> (err = None) = replaceSucceeds nb tr (hashName as) ms ?meta"
    using tr strs res(3) succ by blast
  have cache: "err = None \<longrightarrow> members as' = members as \<union> String ` set ipl
                  \<and> keyedByString (ips as')
                  \<and> as' = as\<lparr>ips := ips as'\<rparr>
                  \<and> snd ` set (ips as') \<subseteq> set ipl \<union> snd ` set (ips as)"
  proof
    assume "err = None"
    with errs have "e = None" by simp
    with ok res have as': "as' = as\<lparr>ips := storeIPs ?new\<rparr>" by simp
    then have "members as' = String ` set ?new" "keyedByString (ips as')"
      "as' = as\<lparr>ips := ips as'\<rparr>"
      by (simp_all add: members_def storeIPs_keys storeIPs_keyedByString)
    moreover have "snd ` set (ips as') \<subseteq> set ipl \<union> snd ` set (ips as)"
    proof -
      from as' have "snd ` set (ips as') = snd ` set (storeIPs ?new)" by simp
      also have "\<dots> \<subseteq> set ?new" by (rule storeIPs_values)
      also note vals
      finally show ?thesis .
    qed
    ultimately show "members as' = members as \<union> String ` set ipl
                  \<and> keyedByString (ips as')
                  \<and> as' = as\<lparr>ips := ips as'\<rparr>
                  \<and> snd ` set (ips as') \<subseteq> set ipl \<union> snd ` set (ips as)"
      using strs' by simp
  qed
  have unchanged: "err \<noteq> None \<longrightarrow> as' = as"
    using errs bad res(2) by simp
  from False trace cache unchanged show ?thesis by blast
qed

theorem addIPs_noop_or_one_replace_witness:
  "keyedByString (ips (set4 [ip_10_0_0_1, ip_10_0_0_2]))
   \<and> String ` set [ip_10_0_0_1] \<subseteq> members (set4 [ip_10_0_0_1, ip_10_0_0_2])
   \<and> addIPs rev okClient (set4 [ip_10_0_0_1, ip_10_0_0_2]) [ip_10_0_0_1] []
       = (None, set4 [ip_10_0_0_1, ip_10_0_0_2], [])
   \<and> \<not> String ` set [ip_10_0_0_3, ip_10_0_0_1] \<subseteq> members (set4 [ip_10_0_0_1, ip_10_0_0_2])
   \<and> addIPs rev okClient (set4 [ip_10_0_0_1, ip_10_0_0_2]) [ip_10_0_0_3, ip_10_0_0_1] []
       = (None, set4 [ip_10_0_0_3, ip_10_0_0_2, ip_10_0_0_1],
          [ASUpdateCall ''h4'' [''10.0.0.3'', ''10.0.0.2'', ''10.0.0.1'']
             [(''name'', ''ns1_v4'')],
           ExecuteCall ''h4''])
   \<and> replaceSucceeds okClient [] ''h4'' [''10.0.0.3'', ''10.0.0.2'', ''10.0.0.1'']
         [(''name'', ''ns1_v4'')]
   \<and> members (set4 [ip_10_0_0_3, ip_10_0_0_2, ip_10_0_0_1])
       = {''10.0.0.1'', ''10.0.0.2'', ''10.0.0.3''}
   \<and> addIPs rev (failingClient ''h4'' (ErrorOther ''boom'')) (set4 [ip_10_0_0_1, ip_10_0_0_2])
         [ip_10_0_0_3, ip_10_0_0_1] []
       = (Some (Errorf ''failed to add IPs (%q) to address set %q: %v''
                  [''\"10.0.0.3\"'', ''/ns1_v4/h4'']
                  (Errorf ''failed to execute update for address set %q: %v''
                     [''/ns1_v4/h4''] (ErrorOther ''boom''))),
          set4 [ip_10_0_0_1, ip_10_0_0_2],
          [ASUpdateCall ''h4'' [''10.0.0.3'', ''10.0.0.2'', ''10.0.0.1'']
             [(''name'', ''ns1_v4'')],
           ExecuteCall ''h4''])
   \<and> \<not> replaceSucceeds (failingClient ''h4'' (ErrorOther ''boom'')) [] ''h4''
         [''10.0.0.3'', ''10.0.0.2'', ''10.0.0.1''] [(''name'', ''ns1_v4'')]"
proof -
  let ?as = "set4 [ip_10_0_0_1, ip_10_0_0_2]"
  let ?bad = "failingClient ''h4'' (ErrorOther ''boom'')"
  have order: "\<And>m :: (string \<times> IP) list. set (rev m) = set m"
    by simp
  have keyed: "keyedByString (ips ?as)"
    by (simp add: keyedByString_def set4_def storeIPs_def ip_10_0_0_1_def ip_10_0_0_2_def)
  have mem: "members ?as = {''10.0.0.1'', ''10.0.0.2''}"
    by (auto simp: members_def set4_def storeIPs_def ip_10_0_0_1_def ip_10_0_0_2_def)
  have noop: "addIPs rev okClient ?as [ip_10_0_0_1] [] = (None, ?as, [])"
    by (simp add: addIPs_def set4_def storeIPs_def ip_10_0_0_1_def ip_10_0_0_2_def)
  have one: "addIPs rev okClient ?as [ip_10_0_0_3, ip_10_0_0_1] []
       = (None, set4 [ip_10_0_0_3, ip_10_0_0_2, ip_10_0_0_1],
          [ASUpdateCall ''h4'' [''10.0.0.3'', ''10.0.0.2'', ''10.0.0.1'']
             [(''name'', ''ns1_v4'')],
           ExecuteCall ''h4''])"
    by (simp add: addIPs_def setIPs_def allIPs_def okClient_def set4_def storeIPs_def
        ipsToStringArray_def Let_def ip_10_0_0_1_def ip_10_0_0_2_def ip_10_0_0_3_def)
  have fail: "addIPs rev ?bad ?as [ip_10_0_0_3, ip_10_0_0_1] []
       = (Some (Errorf ''failed to add IPs (%q) to address set %q: %v''
                  [''\"10.0.0.3\"'', ''/ns1_v4/h4'']
                  (Errorf ''failed to execute update for address set %q: %v''
                     [''/ns1_v4/h4''] (ErrorOther ''boom''))),
          ?as,
          [ASUpdateCall ''h4'' [''10.0.0.3'', ''10.0.0.2'', ''10.0.0.1'']
             [(''name'', ''ns1_v4'')],
           ExecuteCall ''h4''])"
    by (simp add: addIPs_def setIPs_def allIPs_def joinIPs_def asDetail_def failingClient_def
        okClient_def set4_def storeIPs_def
        ipsToStringArray_def Let_def ip_10_0_0_1_def ip_10_0_0_2_def ip_10_0_0_3_def)
  have succ: "replaceSucceeds okClient [] ''h4'' [''10.0.0.3'', ''10.0.0.2'', ''10.0.0.1'']
         [(''name'', ''ns1_v4'')]"
    "\<not> replaceSucceeds ?bad [] ''h4''
         [''10.0.0.3'', ''10.0.0.2'', ''10.0.0.1''] [(''name'', ''ns1_v4'')]"
    by (simp_all add: replaceSucceeds_def failingClient_def okClient_def)
  have str1: "String ` set [ip_10_0_0_1] = {''10.0.0.1''}"
    by (simp add: ip_10_0_0_1_def)
  have str2: "String ` set [ip_10_0_0_3, ip_10_0_0_1] = {''10.0.0.3'', ''10.0.0.1''}"
    by (simp add: ip_10_0_0_1_def ip_10_0_0_3_def)
  from addIPs_noop_or_one_replace [OF order keyed noop]
    addIPs_noop_or_one_replace [OF order keyed one]
    addIPs_noop_or_one_replace [OF order keyed fail]
    keyed noop one fail succ mem str1 str2
  show ?thesis by auto
qed

section \<open>Construction of a family set\<close>


lemma newOvnAddressSet_found:
  assumes "ASGet nb tr (hashedAddressSet HashForOVN nm) = None"
  shows "newOvnAddressSet HashForOVN nb nm ipl tr =
     (case setIPs nb \<lparr>ovnAddressSet.name = nm, hashName = hashedAddressSet HashForOVN nm,
                       uuid = [], ips = storeIPs ipl\<rparr> ipl
             (tr @ [ASGetCall (hashedAddressSet HashForOVN nm)]) of
        (Some err, as', tr') \<Rightarrow> (Inl err, tr')
      | (None, as', tr') \<Rightarrow> (Inr as', tr'))"
  using assms by (simp add: newOvnAddressSet_def Let_def)

lemma newOvnAddressSet_absent:
  assumes "ASGet nb tr (hashedAddressSet HashForOVN nm) = Some ErrorNotFound
           \<or> ASGet nb tr (hashedAddressSet HashForOVN nm) = Some ErrorSchema"
  shows "newOvnAddressSet HashForOVN nb nm ipl tr =
     (let h = hashedAddressSet HashForOVN nm;
          tr2 = tr @ [ASGetCall h, ASAddCall h (ipsToStringArray ipl) [(''name'', nm)]]
      in case ASAdd nb (tr @ [ASGetCall h]) h (ipsToStringArray ipl) [(''name'', nm)] of
           Inl err \<Rightarrow> (Inl (Errorf ''failed to create address set %q: %v'' [nm] err), tr2)
         | Inr cmd \<Rightarrow>
             (case Execute nb tr2 cmd of
                Some err \<Rightarrow>
                  (Inl (Errorf ''failed to create address set %q: %v''
                          [asDetail \<lparr>ovnAddressSet.name = nm, hashName = h,
                       uuid = [], ips = storeIPs ipl\<rparr>] err), tr2 @ [ExecuteCall cmd])
              | None \<Rightarrow> (Inr \<lparr>ovnAddressSet.name = nm, hashName = h,
                       uuid = [], ips = storeIPs ipl\<rparr>, tr2 @ [ExecuteCall cmd])))"
  using assms by (auto simp: newOvnAddressSet_def Let_def)

text \<open>
  C5. When \<^verbatim>\<open>ASGet\<close> on the hashed name finds the set, \<open>newOvnAddressSet\<close> makes no
  \<^verbatim>\<open>ASAdd\<close> call: after the \<^verbatim>\<open>ASGet\<close> it makes one \<^verbatim>\<open>ASUpdate\<close> call with the wanted
  addresses and the metadata \<open>name\<close>, followed at most by its \<^verbatim>\<open>Execute\<close>; if the replace
  succeeds it returns the set, whose cache is stored from the wanted addresses, and if not
  it returns an error. When \<^verbatim>\<open>ASGet\<close> reports \<^verbatim>\<open>ErrorNotFound\<close> or \<^verbatim>\<open>ErrorSchema\<close> it
  makes one \<^verbatim>\<open>ASAdd\<close> call with the wanted addresses and the metadata \<open>name\<close>, followed
  at most by its \<^verbatim>\<open>Execute\<close>; if the create succeeds it returns the set with that cache,
  and if not it returns an error. The keys of that cache are the string forms of the
  wanted addresses, each once.
\<close>

theorem newOvnAddressSet_adopts_or_creates:
  assumes run: "newOvnAddressSet HashForOVN nb nm ipl tr = (res, tr')"
  shows "(ASGet nb tr (hashedAddressSet HashForOVN nm) = None \<longrightarrow>
            (\<exists>rest. tr' = tr @ ASGetCall (hashedAddressSet HashForOVN nm)
                            # ASUpdateCall (hashedAddressSet HashForOVN nm)
                                (ipsToStringArray ipl) [(''name'', nm)] # rest
                   \<and> (rest = [] \<or> (\<exists>cmd. rest = [ExecuteCall cmd])))
            \<and> (replaceSucceeds nb (tr @ [ASGetCall (hashedAddressSet HashForOVN nm)])
                   (hashedAddressSet HashForOVN nm) (ipsToStringArray ipl) [(''name'', nm)]
                 \<longrightarrow> res = Inr \<lparr>ovnAddressSet.name = nm,
                                 hashName = hashedAddressSet HashForOVN nm,
                                 uuid = [], ips = storeIPs ipl\<rparr>)
            \<and> (\<not> replaceSucceeds nb (tr @ [ASGetCall (hashedAddressSet HashForOVN nm)])
                   (hashedAddressSet HashForOVN nm) (ipsToStringArray ipl) [(''name'', nm)]
                 \<longrightarrow> (\<exists>err. res = Inl err)))
       \<and> (ASGet nb tr (hashedAddressSet HashForOVN nm) = Some ErrorNotFound
          \<or> ASGet nb tr (hashedAddressSet HashForOVN nm) = Some ErrorSchema \<longrightarrow>
            (\<exists>rest. tr' = tr @ ASGetCall (hashedAddressSet HashForOVN nm)
                            # ASAddCall (hashedAddressSet HashForOVN nm)
                                (ipsToStringArray ipl) [(''name'', nm)] # rest
                   \<and> (rest = [] \<or> (\<exists>cmd. rest = [ExecuteCall cmd])))
            \<and> (createSucceeds nb (tr @ [ASGetCall (hashedAddressSet HashForOVN nm)])
                   (hashedAddressSet HashForOVN nm) (ipsToStringArray ipl) [(''name'', nm)]
                 \<longrightarrow> res = Inr \<lparr>ovnAddressSet.name = nm,
                                 hashName = hashedAddressSet HashForOVN nm,
                                 uuid = [], ips = storeIPs ipl\<rparr>)
            \<and> (\<not> createSucceeds nb (tr @ [ASGetCall (hashedAddressSet HashForOVN nm)])
                   (hashedAddressSet HashForOVN nm) (ipsToStringArray ipl) [(''name'', nm)]
                 \<longrightarrow> (\<exists>err. res = Inl err)))
       \<and> fst ` set (storeIPs ipl) = String ` set ipl
       \<and> keyedByString (storeIPs ipl)"
proof -
  let ?h = "hashedAddressSet HashForOVN nm"
  let ?as = "\<lparr>ovnAddressSet.name = nm, hashName = ?h, uuid = [], ips = storeIPs ipl\<rparr>"
  let ?tr1 = "tr @ [ASGetCall ?h]"
  have found: ?thesis if get: "ASGet nb tr ?h = None"
  proof -
    obtain e s t where set: "setIPs nb ?as ipl ?tr1 = (e, s, t)"
      by (cases "setIPs nb ?as ipl ?tr1") auto
    from run get set have res: "res = (case e of Some err \<Rightarrow> Inl err | None \<Rightarrow> Inr s)" "tr' = t"
      using newOvnAddressSet_found [OF get, of ipl] by (auto split: option.splits)
    from setIPs_result [OF set] have
      t: "\<exists>rest. t = ?tr1 @ ASUpdateCall ?h (ipsToStringArray ipl) [(''name'', nm)] # rest
               \<and> (rest = [] \<or> (\<exists>cmd. rest = [ExecuteCall cmd]))"
      and ok: "e = None \<longrightarrow> s = ?as" by simp_all
    from setIPs_err [of nb ?as ipl ?tr1] set have
      e: "(e = None) = replaceSucceeds nb ?tr1 ?h (ipsToStringArray ipl) [(''name'', nm)]"
      by simp
    from res t ok e get show ?thesis
      by (auto simp: storeIPs_keys storeIPs_keyedByString)
  qed
  have absent: ?thesis
    if get: "ASGet nb tr ?h = Some ErrorNotFound \<or> ASGet nb tr ?h = Some ErrorSchema"
  proof -
    from get have notNone: "ASGet nb tr ?h \<noteq> None" by auto
    from run show ?thesis
      unfolding newOvnAddressSet_absent [OF get, of ipl] createSucceeds_def Let_def
      using notNone get
      by (auto simp: storeIPs_keys storeIPs_keyedByString split: sum.splits option.splits)
  qed
  have other: ?thesis
    if "ASGet nb tr ?h \<noteq> None" "ASGet nb tr ?h \<noteq> Some ErrorNotFound"
       "ASGet nb tr ?h \<noteq> Some ErrorSchema"
    using that by (auto simp: storeIPs_keys storeIPs_keyedByString)
  from found absent other show ?thesis by blast
qed


theorem newOvnAddressSet_adopts_or_creates_witness:
  "ASGet okClient [] (hashedAddressSet (\<lambda>s. CHR ''h'' # s) ''ns1_v4'') = None
   \<and> replaceSucceeds okClient [ASGetCall ''hns1_v4''] ''hns1_v4''
         (ipsToStringArray [ip_10_0_0_1, ip_10_0_0_1]) [(''name'', ''ns1_v4'')]
   \<and> newOvnAddressSet (\<lambda>s. CHR ''h'' # s) okClient ''ns1_v4'' [ip_10_0_0_1, ip_10_0_0_1] []
       = (Inr \<lparr>ovnAddressSet.name = ''ns1_v4'', hashName = ''hns1_v4'', uuid = [],
                ips = [(''10.0.0.1'', ip_10_0_0_1)]\<rparr>,
          [ASGetCall ''hns1_v4'',
           ASUpdateCall ''hns1_v4'' [''10.0.0.1'', ''10.0.0.1''] [(''name'', ''ns1_v4'')],
           ExecuteCall ''hns1_v4''])
   \<and> ASGet notFoundClient [] (hashedAddressSet (\<lambda>s. CHR ''h'' # s) ''ns1_v4'')
       = Some ErrorNotFound
   \<and> createSucceeds notFoundClient [ASGetCall ''hns1_v4''] ''hns1_v4''
         (ipsToStringArray [ip_10_0_0_1, ip_10_0_0_1]) [(''name'', ''ns1_v4'')]
   \<and> newOvnAddressSet (\<lambda>s. CHR ''h'' # s) notFoundClient ''ns1_v4''
         [ip_10_0_0_1, ip_10_0_0_1] []
       = (Inr \<lparr>ovnAddressSet.name = ''ns1_v4'', hashName = ''hns1_v4'', uuid = [],
                ips = [(''10.0.0.1'', ip_10_0_0_1)]\<rparr>,
          [ASGetCall ''hns1_v4'',
           ASAddCall ''hns1_v4'' [''10.0.0.1'', ''10.0.0.1''] [(''name'', ''ns1_v4'')],
           ExecuteCall ''hns1_v4''])
   \<and> \<not> createSucceeds (notFoundClient\<lparr>Execute := (\<lambda>tr cmd. Some (ErrorOther ''boom''))\<rparr>)
         [ASGetCall ''hns1_v4''] ''hns1_v4''
         (ipsToStringArray [ip_10_0_0_1, ip_10_0_0_1]) [(''name'', ''ns1_v4'')]
   \<and> newOvnAddressSet (\<lambda>s. CHR ''h'' # s)
         (notFoundClient\<lparr>Execute := (\<lambda>tr cmd. Some (ErrorOther ''boom''))\<rparr>) ''ns1_v4''
         [ip_10_0_0_1, ip_10_0_0_1] []
       = (Inl (Errorf ''failed to create address set %q: %v'' [''/ns1_v4/hns1_v4'']
                 (ErrorOther ''boom'')),
          [ASGetCall ''hns1_v4'',
           ASAddCall ''hns1_v4'' [''10.0.0.1'', ''10.0.0.1''] [(''name'', ''ns1_v4'')],
           ExecuteCall ''hns1_v4''])"
proof -
  let ?hash = "\<lambda>s. CHR ''h'' # s"
  let ?ipl = "[ip_10_0_0_1, ip_10_0_0_1]"
  let ?failing = "notFoundClient\<lparr>Execute := (\<lambda>tr cmd. Some (ErrorOther ''boom''))\<rparr>"
  note defs = newOvnAddressSet_def setIPs_def hashedAddressSet_def okClient_def
    notFoundClient_def storeIPs_def ipsToStringArray_def asDetail_def Let_def
    replaceSucceeds_def createSucceeds_def ip_10_0_0_1_def
  have adopt: "newOvnAddressSet ?hash okClient ''ns1_v4'' ?ipl []
       = (Inr \<lparr>ovnAddressSet.name = ''ns1_v4'', hashName = ''hns1_v4'', uuid = [],
                ips = [(''10.0.0.1'', ip_10_0_0_1)]\<rparr>,
          [ASGetCall ''hns1_v4'',
           ASUpdateCall ''hns1_v4'' [''10.0.0.1'', ''10.0.0.1''] [(''name'', ''ns1_v4'')],
           ExecuteCall ''hns1_v4''])"
    by (simp add: defs)
  have create: "newOvnAddressSet ?hash notFoundClient ''ns1_v4'' ?ipl []
       = (Inr \<lparr>ovnAddressSet.name = ''ns1_v4'', hashName = ''hns1_v4'', uuid = [],
                ips = [(''10.0.0.1'', ip_10_0_0_1)]\<rparr>,
          [ASGetCall ''hns1_v4'',
           ASAddCall ''hns1_v4'' [''10.0.0.1'', ''10.0.0.1''] [(''name'', ''ns1_v4'')],
           ExecuteCall ''hns1_v4''])"
    by (simp add: defs)
  have fatal: "newOvnAddressSet ?hash ?failing ''ns1_v4'' ?ipl []
       = (Inl (Errorf ''failed to create address set %q: %v'' [''/ns1_v4/hns1_v4'']
                 (ErrorOther ''boom'')),
          [ASGetCall ''hns1_v4'',
           ASAddCall ''hns1_v4'' [''10.0.0.1'', ''10.0.0.1''] [(''name'', ''ns1_v4'')],
           ExecuteCall ''hns1_v4''])"
    by (simp add: defs)
  have antecedents:
    "ASGet okClient [] (hashedAddressSet ?hash ''ns1_v4'') = None"
    "replaceSucceeds okClient [ASGetCall ''hns1_v4''] ''hns1_v4''
       (ipsToStringArray ?ipl) [(''name'', ''ns1_v4'')]"
    "ASGet notFoundClient [] (hashedAddressSet ?hash ''ns1_v4'') = Some ErrorNotFound"
    "createSucceeds notFoundClient [ASGetCall ''hns1_v4''] ''hns1_v4''
       (ipsToStringArray ?ipl) [(''name'', ''ns1_v4'')]"
    "\<not> createSucceeds ?failing [ASGetCall ''hns1_v4''] ''hns1_v4''
       (ipsToStringArray ?ipl) [(''name'', ''ns1_v4'')]"
    by (simp_all add: defs)
  from newOvnAddressSet_adopts_or_creates [OF adopt]
    newOvnAddressSet_adopts_or_creates [OF create]
    newOvnAddressSet_adopts_or_creates [OF fatal]
    adopt create fatal antecedents
  show ?thesis by simp
qed

section \<open>Adding and deleting on a dual-stack set\<close>


lemma AddIPs_both:
  assumes "ipv6 as = Some s6" "ipv4 as = Some s4" "ipl \<noteq> []"
  shows "AddIPs rangeOrder nb as ipl tr =
     (case addIPs rangeOrder nb s6 (snd (splitIPsByFamily ipl)) tr of
        (Some err, s6', tr6) \<Rightarrow>
          (Some (Errorf ''failed to AddIPs to the v6 set: %w'' [] err),
           as\<lparr>ipv6 := Some s6'\<rparr>, tr6)
      | (None, s6', tr6) \<Rightarrow>
          (case addIPs rangeOrder nb s4 (fst (splitIPsByFamily ipl)) tr6 of
             (e4, s4', tr4) \<Rightarrow>
               (map_option (Errorf ''failed to AddIPs to the v4 set: %w'' []) e4,
                as\<lparr>ipv6 := Some s6', ipv4 := Some s4'\<rparr>, tr4)))"
  using assms
  by (simp add: AddIPs_def split: prod.splits option.splits)

lemma DeleteIPs_both:
  assumes "ipv6 as = Some s6" "ipv4 as = Some s4" "ipl \<noteq> []"
  shows "DeleteIPs nb as ipl tr =
     (case deleteIPs nb s6 (snd (splitIPsByFamily ipl)) tr of
        (Some err, s6', tr6) \<Rightarrow>
          (Some (Errorf ''failed to AddIPs to the v6 set: %w'' [] err),
           as\<lparr>ipv6 := Some s6'\<rparr>, tr6)
      | (None, s6', tr6) \<Rightarrow>
          (case deleteIPs nb s4 (fst (splitIPsByFamily ipl)) tr6 of
             (e4, s4', tr4) \<Rightarrow>
               (map_option (Errorf ''failed to AddIPs to the v4 set: %w'' []) e4,
                as\<lparr>ipv6 := Some s6', ipv4 := Some s4'\<rparr>, tr4)))"
  using assms
  by (simp add: DeleteIPs_def split: prod.splits option.splits)

text \<open>
  C8. Take a dual-stack set with both family sets and a non-empty list of addresses. If
  \<open>addIPs\<close> on the v6 set with the v6 addresses returns an error, \<open>AddIPs\<close> returns
  \<^verbatim>\<open>failed to AddIPs to the v6 set: %w\<close> wrapping that error, with the trace as the v6
  call left it and the v4 set untouched: no call is made for the v4 family. If it returns
  no error, \<open>AddIPs\<close> goes on with \<open>addIPs\<close> on the v4 set, starting from the trace of the
  v6 call. \<open>DeleteIPs\<close> does the same with \<open>deleteIPs\<close>.
\<close>

theorem AddIPs_DeleteIPs_stop_at_v6_failure:
  assumes both: "ipv6 as = Some s6" "ipv4 as = Some s4"
      and nonempty: "ipl \<noteq> []"
  shows "(addIPs rangeOrder nb s6 (snd (splitIPsByFamily ipl)) tr = (Some e, a6, tr6) \<longrightarrow>
            AddIPs rangeOrder nb as ipl tr =
              (Some (Errorf ''failed to AddIPs to the v6 set: %w'' [] e),
               as\<lparr>ipv6 := Some a6\<rparr>, tr6))
       \<and> (addIPs rangeOrder nb s6 (snd (splitIPsByFamily ipl)) tr = (None, a6, tr6) \<longrightarrow>
            AddIPs rangeOrder nb as ipl tr =
              (case addIPs rangeOrder nb s4 (fst (splitIPsByFamily ipl)) tr6 of
                 (e4, a4, tr4) \<Rightarrow>
                   (map_option (Errorf ''failed to AddIPs to the v4 set: %w'' []) e4,
                    as\<lparr>ipv6 := Some a6, ipv4 := Some a4\<rparr>, tr4)))
       \<and> (deleteIPs nb s6 (snd (splitIPsByFamily ipl)) tr = (Some d, b6, dr6) \<longrightarrow>
            DeleteIPs nb as ipl tr =
              (Some (Errorf ''failed to AddIPs to the v6 set: %w'' [] d),
               as\<lparr>ipv6 := Some b6\<rparr>, dr6))
       \<and> (deleteIPs nb s6 (snd (splitIPsByFamily ipl)) tr = (None, b6, dr6) \<longrightarrow>
            DeleteIPs nb as ipl tr =
              (case deleteIPs nb s4 (fst (splitIPsByFamily ipl)) dr6 of
                 (e4, b4, dr4) \<Rightarrow>
                   (map_option (Errorf ''failed to AddIPs to the v4 set: %w'' []) e4,
                    as\<lparr>ipv6 := Some b6, ipv4 := Some b4\<rparr>, dr4)))"
  using AddIPs_both [OF both nonempty, of rangeOrder nb tr]
    DeleteIPs_both [OF both nonempty, of nb tr]
  by simp


theorem AddIPs_DeleteIPs_stop_at_v6_failure_witness:
  "ipv6 (dualSet [] []) = Some (set6 []) \<and> ipv4 (dualSet [] []) = Some (set4 [])
   \<and> [ip_10_0_0_1, ip_2001_db8_1] \<noteq> []
   \<and> addIPs rev (failingClient ''h6'' (ErrorOther ''boom'')) (set6 [])
         (snd (splitIPsByFamily [ip_10_0_0_1, ip_2001_db8_1])) []
       = (Some (Errorf ''failed to add IPs (%q) to address set %q: %v''
                  [''\"2001:db8::1\"'', ''/ns1_v6/h6'']
                  (Errorf ''failed to execute update for address set %q: %v''
                     [''/ns1_v6/h6''] (ErrorOther ''boom''))),
          set6 [],
          [ASUpdateCall ''h6'' [''2001:db8::1''] [(''name'', ''ns1_v6'')], ExecuteCall ''h6''])
   \<and> AddIPs rev (failingClient ''h6'' (ErrorOther ''boom'')) (dualSet [] [])
         [ip_10_0_0_1, ip_2001_db8_1] []
       = (Some (Errorf ''failed to AddIPs to the v6 set: %w'' []
                  (Errorf ''failed to add IPs (%q) to address set %q: %v''
                     [''\"2001:db8::1\"'', ''/ns1_v6/h6'']
                     (Errorf ''failed to execute update for address set %q: %v''
                        [''/ns1_v6/h6''] (ErrorOther ''boom'')))),
          dualSet [] [],
          [ASUpdateCall ''h6'' [''2001:db8::1''] [(''name'', ''ns1_v6'')], ExecuteCall ''h6''])
   \<and> AddIPs rev okClient (dualSet [] []) [ip_10_0_0_1, ip_2001_db8_1] []
       = (None, dualSet [ip_10_0_0_1] [ip_2001_db8_1],
          [ASUpdateCall ''h6'' [''2001:db8::1''] [(''name'', ''ns1_v6'')], ExecuteCall ''h6'',
           ASUpdateCall ''h4'' [''10.0.0.1''] [(''name'', ''ns1_v4'')], ExecuteCall ''h4''])
   \<and> DeleteIPs (failingClient ''h6'' (ErrorOther ''boom''))
         (dualSet [ip_10_0_0_1] [ip_2001_db8_1]) [ip_10_0_0_1, ip_2001_db8_1] []
       = (Some (Errorf ''failed to AddIPs to the v6 set: %w'' []
                  (Errorf ''failed to delete IPs (%q) to address set %q: %v''
                     [[], ''/ns1_v6/h6'']
                     (Errorf ''failed to execute update for address set %q: %v''
                        [''/ns1_v6/h6''] (ErrorOther ''boom'')))),
          dualSet [ip_10_0_0_1] [ip_2001_db8_1],
          [ASUpdateCall ''h6'' [] [(''name'', ''ns1_v6'')], ExecuteCall ''h6''])
   \<and> DeleteIPs okClient (dualSet [ip_10_0_0_1] [ip_2001_db8_1])
         [ip_10_0_0_1, ip_2001_db8_1] []
       = (None, dualSet [] [],
          [ASUpdateCall ''h6'' [] [(''name'', ''ns1_v6'')], ExecuteCall ''h6'',
           ASUpdateCall ''h4'' [] [(''name'', ''ns1_v4'')], ExecuteCall ''h4''])"
proof -
  let ?bad = "failingClient ''h6'' (ErrorOther ''boom'')"
  let ?ipl = "[ip_10_0_0_1, ip_2001_db8_1]"
  note defs = addIPs_def deleteIPs_def setIPs_def allIPs_def joinIPs_def asDetail_def
    splitIPsByFamily_def failingClient_def okClient_def set4_def set6_def
    storeIPs_def ipsToStringArray_def Let_def ip_10_0_0_1_def ip_2001_db8_1_def
  have both0: "ipv6 (dualSet [] []) = Some (set6 [])" "ipv4 (dualSet [] []) = Some (set4 [])"
    by (simp_all add: dualSet_def)
  have both1: "ipv6 (dualSet [ip_10_0_0_1] [ip_2001_db8_1]) = Some (set6 [ip_2001_db8_1])"
    "ipv4 (dualSet [ip_10_0_0_1] [ip_2001_db8_1]) = Some (set4 [ip_10_0_0_1])"
    by (simp_all add: dualSet_def)
  have ne: "?ipl \<noteq> []" by simp
  have add6_bad: "addIPs rev ?bad (set6 []) (snd (splitIPsByFamily ?ipl)) []
       = (Some (Errorf ''failed to add IPs (%q) to address set %q: %v''
                  [''\"2001:db8::1\"'', ''/ns1_v6/h6'']
                  (Errorf ''failed to execute update for address set %q: %v''
                     [''/ns1_v6/h6''] (ErrorOther ''boom''))),
          set6 [],
          [ASUpdateCall ''h6'' [''2001:db8::1''] [(''name'', ''ns1_v6'')], ExecuteCall ''h6''])"
    by (simp add: defs)
  have add6_ok: "addIPs rev okClient (set6 []) (snd (splitIPsByFamily ?ipl)) []
       = (None, set6 [ip_2001_db8_1],
          [ASUpdateCall ''h6'' [''2001:db8::1''] [(''name'', ''ns1_v6'')], ExecuteCall ''h6''])"
    by (simp add: defs)
  have add4_ok: "addIPs rev okClient (set4 []) (fst (splitIPsByFamily ?ipl))
          [ASUpdateCall ''h6'' [''2001:db8::1''] [(''name'', ''ns1_v6'')], ExecuteCall ''h6'']
       = (None, set4 [ip_10_0_0_1],
          [ASUpdateCall ''h6'' [''2001:db8::1''] [(''name'', ''ns1_v6'')], ExecuteCall ''h6'',
           ASUpdateCall ''h4'' [''10.0.0.1''] [(''name'', ''ns1_v4'')], ExecuteCall ''h4''])"
    by (simp add: defs)
  have del6_bad: "deleteIPs ?bad (set6 [ip_2001_db8_1]) (snd (splitIPsByFamily ?ipl)) []
       = (Some (Errorf ''failed to delete IPs (%q) to address set %q: %v''
                     [[], ''/ns1_v6/h6'']
                     (Errorf ''failed to execute update for address set %q: %v''
                        [''/ns1_v6/h6''] (ErrorOther ''boom''))),
          set6 [ip_2001_db8_1],
          [ASUpdateCall ''h6'' [] [(''name'', ''ns1_v6'')], ExecuteCall ''h6''])"
    by (simp add: defs)
  have del6_ok: "deleteIPs okClient (set6 [ip_2001_db8_1]) (snd (splitIPsByFamily ?ipl)) []
       = (None, set6 [],
          [ASUpdateCall ''h6'' [] [(''name'', ''ns1_v6'')], ExecuteCall ''h6''])"
    by (simp add: defs)
  have del4_ok: "deleteIPs okClient (set4 [ip_10_0_0_1]) (fst (splitIPsByFamily ?ipl))
          [ASUpdateCall ''h6'' [] [(''name'', ''ns1_v6'')], ExecuteCall ''h6'']
       = (None, set4 [],
          [ASUpdateCall ''h6'' [] [(''name'', ''ns1_v6'')], ExecuteCall ''h6'',
           ASUpdateCall ''h4'' [] [(''name'', ''ns1_v4'')], ExecuteCall ''h4''])"
    by (simp add: defs)
  have upd: "(dualSet [] [])\<lparr>ipv6 := Some (set6 [])\<rparr> = dualSet [] []"
    "(dualSet [] [])\<lparr>ipv6 := Some (set6 [ip_2001_db8_1]), ipv4 := Some (set4 [ip_10_0_0_1])\<rparr>
       = dualSet [ip_10_0_0_1] [ip_2001_db8_1]"
    "(dualSet [ip_10_0_0_1] [ip_2001_db8_1])\<lparr>ipv6 := Some (set6 [ip_2001_db8_1])\<rparr>
       = dualSet [ip_10_0_0_1] [ip_2001_db8_1]"
    "(dualSet [ip_10_0_0_1] [ip_2001_db8_1])\<lparr>ipv6 := Some (set6 []), ipv4 := Some (set4 [])\<rparr>
       = dualSet [] []"
    by (simp_all add: dualSet_def)
  from AddIPs_DeleteIPs_stop_at_v6_failure [OF both0 ne, of rev ?bad "[]" _ "set6 []" _ _ _ _]
    add6_bad
  have A: "AddIPs rev ?bad (dualSet [] []) ?ipl []
       = (Some (Errorf ''failed to AddIPs to the v6 set: %w'' []
                  (Errorf ''failed to add IPs (%q) to address set %q: %v''
                     [''\"2001:db8::1\"'', ''/ns1_v6/h6'']
                     (Errorf ''failed to execute update for address set %q: %v''
                        [''/ns1_v6/h6''] (ErrorOther ''boom'')))),
          dualSet [] [],
          [ASUpdateCall ''h6'' [''2001:db8::1''] [(''name'', ''ns1_v6'')], ExecuteCall ''h6''])"
    by (simp add: upd)
  from AddIPs_DeleteIPs_stop_at_v6_failure [OF both0 ne, of rev okClient "[]"] add6_ok add4_ok
  have B: "AddIPs rev okClient (dualSet [] []) ?ipl []
       = (None, dualSet [ip_10_0_0_1] [ip_2001_db8_1],
          [ASUpdateCall ''h6'' [''2001:db8::1''] [(''name'', ''ns1_v6'')], ExecuteCall ''h6'',
           ASUpdateCall ''h4'' [''10.0.0.1''] [(''name'', ''ns1_v4'')], ExecuteCall ''h4''])"
    by (simp add: upd)
  from AddIPs_DeleteIPs_stop_at_v6_failure [OF both1 ne, of _ ?bad "[]"] del6_bad
  have C: "DeleteIPs ?bad (dualSet [ip_10_0_0_1] [ip_2001_db8_1]) ?ipl []
       = (Some (Errorf ''failed to AddIPs to the v6 set: %w'' []
                  (Errorf ''failed to delete IPs (%q) to address set %q: %v''
                     [[], ''/ns1_v6/h6'']
                     (Errorf ''failed to execute update for address set %q: %v''
                        [''/ns1_v6/h6''] (ErrorOther ''boom'')))),
          dualSet [ip_10_0_0_1] [ip_2001_db8_1],
          [ASUpdateCall ''h6'' [] [(''name'', ''ns1_v6'')], ExecuteCall ''h6''])"
    by (simp add: upd)
  from AddIPs_DeleteIPs_stop_at_v6_failure [OF both1 ne, of _ okClient "[]"] del6_ok del4_ok
  have D: "DeleteIPs okClient (dualSet [ip_10_0_0_1] [ip_2001_db8_1]) ?ipl []
       = (None, dualSet [] [],
          [ASUpdateCall ''h6'' [] [(''name'', ''ns1_v6'')], ExecuteCall ''h6'',
           ASUpdateCall ''h4'' [] [(''name'', ''ns1_v4'')], ExecuteCall ''h4''])"
    by (simp add: upd)
  from both0 ne add6_bad A B C D show ?thesis by simp
qed

section \<open>Enumeration\<close>


text \<open>\<^verbatim>\<open>names[0]\<close> in \<^verbatim>\<open>ForEachAddressSet\<close> is always in range.\<close>

lemma Split_not_empty: "Split s sep \<noteq> []"
  by (induction s) (simp_all split: list.splits)

lemma forEachLoop_skip:
  "\<not> hasStringName s \<Longrightarrow> forEachLoop processed (s # rest) = forEachLoop processed rest"
  by (simp add: hasStringName_def split: option.splits interface.splits)

lemma forEachLoop_stop:
  "hasStringName s \<Longrightarrow> forEachLoop processed (s # rest) = forEachLoop processed [s]"
  by (simp add: hasStringName_def Let_def split: option.splits interface.splits)

lemma forEachLoop_find:
  "forEachLoop processed rows =
     (case find hasStringName rows of None \<Rightarrow> [] | Some s \<Rightarrow> forEachLoop processed [s])"
proof (induction rows)
  case Nil
  show ?case by simp
next
  case (Cons s rest)
  show ?case
  proof (cases "hasStringName s")
    case True
    then show ?thesis using forEachLoop_stop [OF True] by simp
  next
    case False
    then show ?thesis using forEachLoop_skip [OF False] Cons.IH by simp
  qed
qed

lemma forEachLoop_single:
  "hasStringName s \<Longrightarrow>
     map fst (forEachLoop {} [s]) = [truncateSuffixFromAddressSet (stringName s)]"
  by (simp add: hasStringName_def stringName_def Let_def
      split: option.splits interface.splits)

lemma forEachLoop_length: "length (forEachLoop processed rows) \<le> 1"
  by (induction rows) (simp_all add: Let_def split: option.splits interface.splits)

text \<open>
  C4, as the code has it. \<open>ForEachAddressSet\<close> makes one \<^verbatim>\<open>ASList\<close> call. When the
  listing returns no error or \<^verbatim>\<open>ErrorSchema\<close>, it skips the rows without a string name
  and visits the first row that has one, and no other: the visits are those of that row
  alone, none if no row has a string name. When the listing returns another error it
  visits nothing and returns an error. The visit of a row with a string name is one call
  of the visitor, on the name without its family suffix, so the visitor is called at most
  once.
\<close>

theorem ForEachAddressSet_visits_first_named_row:
  assumes "ASList nb tr = (rows, e)"
  shows "(e = None \<or> e = Some ErrorSchema \<longrightarrow>
            ForEachAddressSet nb tr =
              (None,
               (case find hasStringName rows of
                  None \<Rightarrow> []
                | Some s \<Rightarrow> forEachLoop {} [s]),
               tr @ [ASListCall]))
       \<and> (e \<noteq> None \<and> e \<noteq> Some ErrorSchema \<longrightarrow>
            (\<exists>err. ForEachAddressSet nb tr = (Some err, [], tr @ [ASListCall])))
       \<and> (hasStringName s \<longrightarrow>
            map fst (forEachLoop {} [s]) = [truncateSuffixFromAddressSet (stringName s)])
       \<and> length (fst (snd (ForEachAddressSet nb tr))) \<le> 1"
proof -
  have ok: "e = None \<or> e = Some ErrorSchema \<longrightarrow>
            ForEachAddressSet nb tr =
              (None,
               (case find hasStringName rows of
                  None \<Rightarrow> []
                | Some s \<Rightarrow> forEachLoop {} [s]),
               tr @ [ASListCall])"
    using assms forEachLoop_find [of "{}" rows]
    by (auto simp: ForEachAddressSet_def)
  have bad: "e \<noteq> None \<and> e \<noteq> Some ErrorSchema \<longrightarrow>
            (\<exists>err. ForEachAddressSet nb tr = (Some err, [], tr @ [ASListCall]))"
    using assms by (auto simp: ForEachAddressSet_def)
  have len: "length (fst (snd (ForEachAddressSet nb tr))) \<le> 1"
    using assms forEachLoop_length [of "{}" rows]
    by (auto simp: ForEachAddressSet_def split: option.splits)
  from ok bad len forEachLoop_single [of s] show ?thesis by blast
qed

theorem ForEachAddressSet_visits_first_named_row_witness:
  "ASList (listingClient [namedRow ''a_v4'', namedRow ''a_v6'']) []
     = ([namedRow ''a_v4'', namedRow ''a_v6''], None)
   \<and> hasStringName (namedRow ''a_v4'')
   \<and> ForEachAddressSet (listingClient [namedRow ''a_v4'', namedRow ''a_v6'']) []
       = (None, [(''a'', ''a'', [])], [ASListCall])
   \<and> ASList (listingClient [unnamedRow, namedRow ''ns1.egress_v6'', namedRow ''b'']) []
     = ([unnamedRow, namedRow ''ns1.egress_v6'', namedRow ''b''], None)
   \<and> ForEachAddressSet (listingClient [unnamedRow, namedRow ''ns1.egress_v6'', namedRow ''b'']) []
       = (None, [(''ns1.egress'', ''ns1'', ''egress'')], [ASListCall])
   \<and> ASList (okClient\<lparr>ASList := (\<lambda>tr. ([namedRow ''a_v4''], Some ErrorSchema))\<rparr>) []
     = ([namedRow ''a_v4''], Some ErrorSchema)
   \<and> ForEachAddressSet
        (okClient\<lparr>ASList := (\<lambda>tr. ([namedRow ''a_v4''], Some ErrorSchema))\<rparr>) []
       = (None, [(''a'', ''a'', [])], [ASListCall])
   \<and> ASList (okClient\<lparr>ASList := (\<lambda>tr. ([namedRow ''a_v4''], Some (ErrorOther ''boom'')))\<rparr>) []
     = ([namedRow ''a_v4''], Some (ErrorOther ''boom''))
   \<and> ForEachAddressSet
        (okClient\<lparr>ASList := (\<lambda>tr. ([namedRow ''a_v4''], Some (ErrorOther ''boom'')))\<rparr>) []
       = (Some (Errorf ''error reading address sets: %v'' [] (ErrorOther ''boom'')), [],
          [ASListCall])"
proof -
  let ?failing = "okClient\<lparr>ASList := (\<lambda>tr. ([namedRow ''a_v4''], Some (ErrorOther ''boom'')))\<rparr>"
  let ?old = "okClient\<lparr>ASList := (\<lambda>tr. ([namedRow ''a_v4''], Some ErrorSchema))\<rparr>"
  note defs = ForEachAddressSet_def listingClient_def okClient_def namedRow_def
    unnamedRow_def hasStringName_def truncateSuffixFromAddressSet_def HasSuffix_def
    TrimSuffix_def ipv4AddressSetSuffix_def ipv6AddressSetSuffix_def Let_def
  have l1: "ASList (listingClient [namedRow ''a_v4'', namedRow ''a_v6'']) []
     = ([namedRow ''a_v4'', namedRow ''a_v6''], None)"
    by (simp add: listingClient_def)
  have l2: "ASList (listingClient [unnamedRow, namedRow ''ns1.egress_v6'', namedRow ''b'']) []
     = ([unnamedRow, namedRow ''ns1.egress_v6'', namedRow ''b''], None)"
    by (simp add: listingClient_def)
  have l3: "ASList ?failing [] = ([namedRow ''a_v4''], Some (ErrorOther ''boom''))"
    by simp
  have l4: "ASList ?old [] = ([namedRow ''a_v4''], Some ErrorSchema)"
    by simp
  have named: "hasStringName (namedRow ''a_v4'')" "\<not> hasStringName unnamedRow"
    "hasStringName (namedRow ''ns1.egress_v6'')"
    by (simp_all add: hasStringName_def namedRow_def unnamedRow_def)
  have v1: "forEachLoop {} [namedRow ''a_v4''] = [(''a'', ''a'', [])]"
    by (simp add: defs)
  have v2: "forEachLoop {} [namedRow ''ns1.egress_v6''] = [(''ns1.egress'', ''ns1'', ''egress'')]"
    by (simp add: defs)
  have v3: "ForEachAddressSet ?failing []
       = (Some (Errorf ''error reading address sets: %v'' [] (ErrorOther ''boom'')), [],
          [ASListCall])"
    by (simp add: ForEachAddressSet_def)
  from ForEachAddressSet_visits_first_named_row [OF l1, of "namedRow ''a_v4''"]
    ForEachAddressSet_visits_first_named_row [OF l2, of "namedRow ''a_v4''"]
    ForEachAddressSet_visits_first_named_row [OF l3, of "namedRow ''a_v4''"]
    ForEachAddressSet_visits_first_named_row [OF l4, of "namedRow ''a_v4''"]
    l1 l2 l3 l4 named v1 v2 v3
  show ?thesis by simp
qed

theorem ForEachAddressSet_first_row_counterexample:
  "length (fst (snd (ForEachAddressSet (listingClient [unnamedRow, namedRow ''a_v4'']) [])))
     \<noteq> visitsByFirstRow [unnamedRow, namedRow ''a_v4'']"
  by (simp add: ForEachAddressSet_def listingClient_def okClient_def namedRow_def
      unnamedRow_def hasStringName_def visitsByFirstRow_def
      truncateSuffixFromAddressSet_def HasSuffix_def
      TrimSuffix_def ipv4AddressSetSuffix_def ipv6AddressSetSuffix_def Let_def)

section \<open>Deleting addresses\<close>


lemma deleteIPs_replace:
  "deleteIPs nb as ipl tr =
     (case setIPs nb as (snd (deleteLoop (ips as) [] ipl)) tr of
        (e, as', tr') \<Rightarrow>
          (map_option (Errorf ''failed to delete IPs (%q) to address set %q: %v''
               [joinIPs (snd (deleteLoop (ips as) [] ipl)), asDetail as']) e,
           as', tr'))"
  by (simp add: deleteIPs_def Let_def split: prod.splits option.splits)

lemma deleteLoop_absent:
  "String ` set ipl \<inter> fst ` set m = {} \<Longrightarrow> deleteLoop m acc ipl = (m, acc @ ipl)"
  by (induction ipl arbitrary: acc) (auto simp: map_of_eq_None_iff)

text \<open>
  What \<open>deleteIPs\<close> does with addresses that are not members: it replaces the set by
  exactly these addresses.
\<close>

lemma deleteIPs_of_absent:
  assumes "String ` set ipl \<inter> members as = {}"
  shows "deleteIPs nb as ipl tr =
     (case setIPs nb as ipl tr of
        (e, as', tr') \<Rightarrow>
          (map_option (Errorf ''failed to delete IPs (%q) to address set %q: %v''
               [joinIPs ipl, asDetail as']) e,
           as', tr'))"
  using assms deleteLoop_absent [of ipl "ips as" "[]"]
  by (simp add: deleteIPs_replace members_def)

text \<open>
  C1, on the code. The set holds 10.0.0.1 and 10.0.0.2 and every call to the client
  succeeds. Deleting 10.0.0.1 issues a replace with no member and leaves the cache empty,
  where the members without 10.0.0.1 are 10.0.0.2. Deleting 10.0.0.3, which is not a
  member, issues a replace with 10.0.0.3 as the only member and leaves the cache holding
  10.0.0.3 alone. Through \<open>DeleteIPs\<close> of the dual-stack set, deleting 10.0.0.1 empties
  the v4 cache in the same way.
\<close>

theorem deleteIPs_keeps_only_absent_addresses:
  "deleteIPs okClient (set4 [ip_10_0_0_1, ip_10_0_0_2]) [ip_10_0_0_1] []
     = (None, set4 [],
        [ASUpdateCall ''h4'' [] [(''name'', ''ns1_v4'')], ExecuteCall ''h4''])
   \<and> members (set4 [ip_10_0_0_1, ip_10_0_0_2]) - String ` set [ip_10_0_0_1] = {''10.0.0.2''}
   \<and> members (set4 []) = {}
   \<and> deleteIPs okClient (set4 [ip_10_0_0_1, ip_10_0_0_2]) [ip_10_0_0_3] []
     = (None, set4 [ip_10_0_0_3],
        [ASUpdateCall ''h4'' [''10.0.0.3''] [(''name'', ''ns1_v4'')], ExecuteCall ''h4''])
   \<and> members (set4 [ip_10_0_0_1, ip_10_0_0_2]) - String ` set [ip_10_0_0_3]
     = {''10.0.0.1'', ''10.0.0.2''}
   \<and> members (set4 [ip_10_0_0_3]) = {''10.0.0.3''}
   \<and> DeleteIPs okClient (dualSet [ip_10_0_0_1, ip_10_0_0_2] []) [ip_10_0_0_1] []
     = (None, dualSet [] [],
        [ASUpdateCall ''h6'' [] [(''name'', ''ns1_v6'')], ExecuteCall ''h6'',
         ASUpdateCall ''h4'' [] [(''name'', ''ns1_v4'')], ExecuteCall ''h4''])"
  by (auto simp: DeleteIPs_def deleteIPs_def setIPs_def splitIPsByFamily_def okClient_def
      dualSet_def set4_def set6_def members_def storeIPs_def ipsToStringArray_def Let_def
      ip_10_0_0_1_def ip_10_0_0_2_def ip_10_0_0_3_def)

section \<open>Replacing and destroying on a dual-stack set\<close>


lemma SetIPs_both:
  assumes "ipv6 as = Some s6" "ipv4 as = Some s4"
  shows "SetIPs nb as ipl tr =
     (case setIPs nb s6 (snd (splitIPsByFamily ipl)) tr of
        (e6, a6, tr6) \<Rightarrow>
          (case setIPs nb s4 (fst (splitIPsByFamily ipl)) tr6 of
             (e4, a4, tr4) \<Rightarrow>
               (Wrapf e6 ''%v'' e4, as\<lparr>ipv6 := Some a6, ipv4 := Some a4\<rparr>, tr4)))"
  using assms
  by (simp add: SetIPs_def split: prod.splits)

text \<open>
  With both family sets, \<open>SetIPs\<close> runs the replace of the v4 family whatever the v6
  replace returned, and its error is nil exactly when the v6 replace returned nil: an error
  of the v6 replace comes back wrapped, an error of the v4 replace after a v6 success is
  lost.
\<close>

lemma SetIPs_error_is_v6_error:
  assumes "ipv6 as = Some s6" "ipv4 as = Some s4"
      and "setIPs nb s6 (snd (splitIPsByFamily ipl)) tr = (e6, a6, tr6)"
      and "setIPs nb s4 (fst (splitIPsByFamily ipl)) tr6 = (e4, a4, tr4)"
  shows "SetIPs nb as ipl tr =
           (case e6 of None \<Rightarrow> None | Some err \<Rightarrow> Some (Wrapped err ''%v'' e4),
            as\<lparr>ipv6 := Some a6, ipv4 := Some a4\<rparr>, tr4)"
  using assms by (simp add: SetIPs_both Wrapf_def)

text \<open>
  C2, on the code. Both family sets are present and the client fails the \<^verbatim>\<open>Execute\<close> of
  the v4 replace only. \<open>SetIPs\<close> attempts both replaces (the trace has the two
  \<^verbatim>\<open>ASUpdate\<close> calls with their \<^verbatim>\<open>Execute\<close>), the v4 replace returns an error and its
  cache stays empty, and \<open>SetIPs\<close> returns nil. With the failure on the v6 replace instead,
  \<open>SetIPs\<close> still attempts the v4 replace and returns the v6 error wrapped.
\<close>

theorem SetIPs_loses_v4_error:
  "SetIPs (failingClient ''h4'' (ErrorOther ''boom'')) (dualSet [] [])
       [ip_10_0_0_1, ip_2001_db8_1] []
     = (None, dualSet [] [ip_2001_db8_1],
        [ASUpdateCall ''h6'' [''2001:db8::1''] [(''name'', ''ns1_v6'')], ExecuteCall ''h6'',
         ASUpdateCall ''h4'' [''10.0.0.1''] [(''name'', ''ns1_v4'')], ExecuteCall ''h4''])
   \<and> setIPs (failingClient ''h4'' (ErrorOther ''boom'')) (set4 []) [ip_10_0_0_1]
       [ASUpdateCall ''h6'' [''2001:db8::1''] [(''name'', ''ns1_v6'')], ExecuteCall ''h6'']
     = (Some (Errorf ''failed to execute update for address set %q: %v'' [''/ns1_v4/h4'']
                (ErrorOther ''boom'')),
        set4 [],
        [ASUpdateCall ''h6'' [''2001:db8::1''] [(''name'', ''ns1_v6'')], ExecuteCall ''h6'',
         ASUpdateCall ''h4'' [''10.0.0.1''] [(''name'', ''ns1_v4'')], ExecuteCall ''h4''])
   \<and> SetIPs (failingClient ''h6'' (ErrorOther ''boom'')) (dualSet [] [])
       [ip_10_0_0_1, ip_2001_db8_1] []
     = (Some (Wrapped
                (Errorf ''failed to execute update for address set %q: %v'' [''/ns1_v6/h6'']
                   (ErrorOther ''boom''))
                ''%v'' None),
        dualSet [ip_10_0_0_1] [],
        [ASUpdateCall ''h6'' [''2001:db8::1''] [(''name'', ''ns1_v6'')], ExecuteCall ''h6'',
         ASUpdateCall ''h4'' [''10.0.0.1''] [(''name'', ''ns1_v4'')], ExecuteCall ''h4''])"
  by (simp add: SetIPs_def Wrapf_def setIPs_def splitIPsByFamily_def failingClient_def
      okClient_def dualSet_def set4_def set6_def storeIPs_def ipsToStringArray_def
      asDetail_def Let_def ip_10_0_0_1_def ip_2001_db8_1_def)

lemma destroy_result:
  "destroy nb as tr =
     (case ASDel nb tr (hashName as) of
        Inl err \<Rightarrow>
          (Some (Errorf ''failed to create delete for address set %q: %v'' [asDetail as] err),
           as, tr @ [ASDelCall (hashName as)])
      | Inr cmd \<Rightarrow>
          (case Execute nb (tr @ [ASDelCall (hashName as)]) cmd of
             Some err \<Rightarrow>
               (Some (Errorf ''failed to destroy address set %q: %v'' [asDetail as] err),
                as, tr @ [ASDelCall (hashName as), ExecuteCall cmd])
           | None \<Rightarrow>
               (None, as\<lparr>ips := []\<rparr>, tr @ [ASDelCall (hashName as), ExecuteCall cmd])))"
  by (simp add: destroy_def Let_def split: sum.splits option.splits)

text \<open>
  \<open>destroy\<close> returns every error of \<^verbatim>\<open>Execute\<close>, \<^verbatim>\<open>ErrorNotFound\<close> included, and then
  leaves the cache as it is; \<open>destroyAddressSet\<close> of the factory, on the same answers of
  the client, returns nil when the error is \<^verbatim>\<open>ErrorNotFound\<close>.
\<close>

lemma destroy_surfaces_every_Execute_error:
  assumes "ASDel nb tr (hashName as) = Inr cmd"
      and "Execute nb (tr @ [ASDelCall (hashName as)]) cmd = Some err"
  shows "destroy nb as tr =
           (Some (Errorf ''failed to destroy address set %q: %v'' [asDetail as] err), as,
            tr @ [ASDelCall (hashName as), ExecuteCall cmd])"
  using assms by (simp add: destroy_result)

lemma destroyAddressSet_tolerates_not_found:
  assumes "ASDel nb tr (hashedAddressSet HashForOVN nm) = Inr cmd"
      and "Execute nb (tr @ [ASDelCall (hashedAddressSet HashForOVN nm)]) cmd
             = Some ErrorNotFound"
  shows "destroyAddressSet HashForOVN nb nm tr =
           (None, tr @ [ASDelCall (hashedAddressSet HashForOVN nm), ExecuteCall cmd])"
  using assms by (simp add: destroyAddressSet_def Let_def)

text \<open>
  C3, on the code. The dual-stack set has both family sets and the client answers the
  \<^verbatim>\<open>Execute\<close> of the v4 delete with \<^verbatim>\<open>ErrorNotFound\<close>. \<open>Destroy\<close> returns an error that
  formats \<^verbatim>\<open>ErrorNotFound\<close>, keeps the v4 cache and issues no delete for the v6 family.
  On the same client \<open>destroyAddressSet\<close> of the factory returns nil for the same hashed
  name, and on a client without failures \<open>Destroy\<close> issues one delete for each family,
  v4 first, and clears both caches.
\<close>

theorem Destroy_returns_not_found:
  "Destroy (failingClient ''h4'' ErrorNotFound) (dualSet [ip_10_0_0_1] [ip_2001_db8_1]) []
     = (Some (Errorf ''failed to destroy address set %q: %v'' [''/ns1_v4/h4''] ErrorNotFound),
        dualSet [ip_10_0_0_1] [ip_2001_db8_1],
        [ASDelCall ''h4'', ExecuteCall ''h4''])
   \<and> destroyAddressSet (\<lambda>s. ''h4'') (failingClient ''h4'' ErrorNotFound) ''ns1_v4'' []
     = (None, [ASDelCall ''h4'', ExecuteCall ''h4''])
   \<and> Destroy okClient (dualSet [ip_10_0_0_1] [ip_2001_db8_1]) []
     = (None, dualSet [] [],
        [ASDelCall ''h4'', ExecuteCall ''h4'', ASDelCall ''h6'', ExecuteCall ''h6''])"
  by (simp add: Destroy_def destroy_def destroyAddressSet_def hashedAddressSet_def
      failingClient_def okClient_def dualSet_def set4_def set6_def storeIPs_def
      asDetail_def Let_def ip_10_0_0_1_def ip_2001_db8_1_def)

section \<open>Routing of addresses to the family sets\<close>


lemma SetIPs_routing:
  "SetIPs nb as ipl tr =
     (case onFamily (ipv6 as) (\<lambda>s6. setIPs nb s6 (filter IsIPv6 ipl)) tr of
        (e6, a6, tr6) \<Rightarrow>
          (case onFamily (ipv4 as)
                  (\<lambda>s4. setIPs nb s4 (filter (\<lambda>ip. \<not> IsIPv6 ip) ipl)) tr6 of
             (e4, a4, tr4) \<Rightarrow>
               (if ipv4 as = None then e6 else Wrapf e6 ''%v'' e4,
                as\<lparr>ipv6 := a6, ipv4 := a4\<rparr>, tr4)))"
  by (cases "ipv6 as"; cases "ipv4 as")
    (auto simp: SetIPs_def onFamily_def splitIPsByFamily_filter split: prod.splits)

lemma AddIPs_routing:
  "ipl \<noteq> [] \<Longrightarrow> AddIPs rangeOrder nb as ipl tr =
     (case onFamily (ipv6 as) (\<lambda>s6. addIPs rangeOrder nb s6 (filter IsIPv6 ipl)) tr of
        (Some err, a6, tr6) \<Rightarrow>
          (Some (Errorf ''failed to AddIPs to the v6 set: %w'' [] err),
           as\<lparr>ipv6 := a6\<rparr>, tr6)
      | (None, a6, tr6) \<Rightarrow>
          (case onFamily (ipv4 as)
                  (\<lambda>s4. addIPs rangeOrder nb s4 (filter (\<lambda>ip. \<not> IsIPv6 ip) ipl)) tr6 of
             (e4, a4, tr4) \<Rightarrow>
               (map_option (Errorf ''failed to AddIPs to the v4 set: %w'' []) e4,
                as\<lparr>ipv6 := a6, ipv4 := a4\<rparr>, tr4)))"
  by (cases "ipv6 as"; cases "ipv4 as")
    (auto simp: AddIPs_def onFamily_def splitIPsByFamily_filter
      split: prod.splits option.splits)

lemma DeleteIPs_routing:
  "ipl \<noteq> [] \<Longrightarrow> DeleteIPs nb as ipl tr =
     (case onFamily (ipv6 as) (\<lambda>s6. deleteIPs nb s6 (filter IsIPv6 ipl)) tr of
        (Some err, a6, tr6) \<Rightarrow>
          (Some (Errorf ''failed to AddIPs to the v6 set: %w'' [] err),
           as\<lparr>ipv6 := a6\<rparr>, tr6)
      | (None, a6, tr6) \<Rightarrow>
          (case onFamily (ipv4 as)
                  (\<lambda>s4. deleteIPs nb s4 (filter (\<lambda>ip. \<not> IsIPv6 ip) ipl)) tr6 of
             (e4, a4, tr4) \<Rightarrow>
               (map_option (Errorf ''failed to AddIPs to the v4 set: %w'' []) e4,
                as\<lparr>ipv6 := a6, ipv4 := a4\<rparr>, tr4)))"
  by (cases "ipv6 as"; cases "ipv4 as")
    (auto simp: DeleteIPs_def onFamily_def splitIPsByFamily_filter
      split: prod.splits option.splits)

lemma newOvnAddressSets_routing:
  "newOvnAddressSets IPv4Mode IPv6Mode HashForOVN nb nm ipl tr =
     (case whenMode IPv4Mode
             (newOvnAddressSet HashForOVN nb (fst (MakeAddressSetName nm))
                (filter (\<lambda>ip. \<not> IsIPv6 ip) ipl)) tr of
        (Inl err, tr1) \<Rightarrow> (Inl err, tr1)
      | (Inr v4set, tr1) \<Rightarrow>
          (case whenMode IPv6Mode
                  (newOvnAddressSet HashForOVN nb (snd (MakeAddressSetName nm))
                     (filter IsIPv6 ipl)) tr1 of
             (Inl err, tr2) \<Rightarrow> (Inl err, tr2)
           | (Inr v6set, tr2) \<Rightarrow>
               (Inr \<lparr>ovnAddressSets.name = nm, ipv4 = v4set, ipv6 = v6set\<rparr>, tr2)))"
  by (simp add: newOvnAddressSets_def whenMode_def splitIPsByFamily_filter
      MakeAddressSetName_def split: prod.splits sum.splits)


text \<open>
  C10, as the code has it. \<open>splitIPsByFamily\<close> returns, for every list, the addresses
  that are not classified as IPv6 and the addresses that are, each in the order of the
  input; an address occurs in the two slices together exactly as often as in the input, and
  no address is in both. Every dual-stack operation hands the v6 slice to the v6 family
  set and the v4 slice to the v4 family set, and to nothing else: \<open>SetIPs\<close>, \<open>AddIPs\<close> and
  \<open>DeleteIPs\<close> call the method of a family set only when its pointer is not nil, and
  \<open>newOvnAddressSets\<close> constructs a family set only when its mode is on. So an address
  reaches at most one family set, the one of its family, and none when that family is
  switched off. On an empty list \<open>AddIPs\<close> and \<open>DeleteIPs\<close> call nothing.
\<close>

theorem splitIPsByFamily_partition_and_routing:
  "fst (splitIPsByFamily ipl) = filter (\<lambda>ip. \<not> IsIPv6 ip) ipl
   \<and> snd (splitIPsByFamily ipl) = filter IsIPv6 ipl
   \<and> mset (fst (splitIPsByFamily ipl)) + mset (snd (splitIPsByFamily ipl)) = mset ipl
   \<and> set (fst (splitIPsByFamily ipl)) \<inter> set (snd (splitIPsByFamily ipl)) = {}
   \<and> (ip \<in> set (snd (splitIPsByFamily ipl))) = (ip \<in> set ipl \<and> IsIPv6 ip)
   \<and> (ip \<in> set (fst (splitIPsByFamily ipl))) = (ip \<in> set ipl \<and> \<not> IsIPv6 ip)
   \<and> SetIPs nb as ipl tr =
       (case onFamily (ipv6 as) (\<lambda>s6. setIPs nb s6 (snd (splitIPsByFamily ipl))) tr of
          (e6, a6, tr6) \<Rightarrow>
            (case onFamily (ipv4 as)
                    (\<lambda>s4. setIPs nb s4 (fst (splitIPsByFamily ipl))) tr6 of
               (e4, a4, tr4) \<Rightarrow>
                 (if ipv4 as = None then e6 else Wrapf e6 ''%v'' e4,
                  as\<lparr>ipv6 := a6, ipv4 := a4\<rparr>, tr4)))
   \<and> (ipl \<noteq> [] \<longrightarrow>
        AddIPs rangeOrder nb as ipl tr =
          (case onFamily (ipv6 as)
                  (\<lambda>s6. addIPs rangeOrder nb s6 (snd (splitIPsByFamily ipl))) tr of
             (Some err, a6, tr6) \<Rightarrow>
               (Some (Errorf ''failed to AddIPs to the v6 set: %w'' [] err),
                as\<lparr>ipv6 := a6\<rparr>, tr6)
           | (None, a6, tr6) \<Rightarrow>
               (case onFamily (ipv4 as)
                       (\<lambda>s4. addIPs rangeOrder nb s4 (fst (splitIPsByFamily ipl))) tr6 of
                  (e4, a4, tr4) \<Rightarrow>
                    (map_option (Errorf ''failed to AddIPs to the v4 set: %w'' []) e4,
                     as\<lparr>ipv6 := a6, ipv4 := a4\<rparr>, tr4)))
        \<and> DeleteIPs nb as ipl tr =
          (case onFamily (ipv6 as)
                  (\<lambda>s6. deleteIPs nb s6 (snd (splitIPsByFamily ipl))) tr of
             (Some err, a6, tr6) \<Rightarrow>
               (Some (Errorf ''failed to AddIPs to the v6 set: %w'' [] err),
                as\<lparr>ipv6 := a6\<rparr>, tr6)
           | (None, a6, tr6) \<Rightarrow>
               (case onFamily (ipv4 as)
                       (\<lambda>s4. deleteIPs nb s4 (fst (splitIPsByFamily ipl))) tr6 of
                  (e4, a4, tr4) \<Rightarrow>
                    (map_option (Errorf ''failed to AddIPs to the v4 set: %w'' []) e4,
                     as\<lparr>ipv6 := a6, ipv4 := a4\<rparr>, tr4))))
   \<and> (ipl = [] \<longrightarrow>
        AddIPs rangeOrder nb as ipl tr = (None, as, tr)
        \<and> DeleteIPs nb as ipl tr = (None, as, tr))
   \<and> newOvnAddressSets IPv4Mode IPv6Mode HashForOVN nb nm ipl tr =
       (case whenMode IPv4Mode
               (newOvnAddressSet HashForOVN nb (fst (MakeAddressSetName nm))
                  (fst (splitIPsByFamily ipl))) tr of
          (Inl err, tr1) \<Rightarrow> (Inl err, tr1)
        | (Inr v4set, tr1) \<Rightarrow>
            (case whenMode IPv6Mode
                    (newOvnAddressSet HashForOVN nb (snd (MakeAddressSetName nm))
                       (snd (splitIPsByFamily ipl))) tr1 of
               (Inl err, tr2) \<Rightarrow> (Inl err, tr2)
             | (Inr v6set, tr2) \<Rightarrow>
                 (Inr \<lparr>ovnAddressSets.name = nm, ipv4 = v4set, ipv6 = v6set\<rparr>, tr2)))"
proof -
  have split: "fst (splitIPsByFamily ipl) = filter (\<lambda>ip. \<not> IsIPv6 ip) ipl"
    "snd (splitIPsByFamily ipl) = filter IsIPv6 ipl"
    by (simp_all add: splitIPsByFamily_filter)
  have count: "mset (filter (\<lambda>ip. \<not> IsIPv6 ip) ipl) + mset (filter IsIPv6 ipl) = mset ipl"
    by (induction ipl) simp_all
  have disjoint: "set (filter (\<lambda>ip. \<not> IsIPv6 ip) ipl) \<inter> set (filter IsIPv6 ipl) = {}"
    by auto
  have empty: "ipl = [] \<longrightarrow>
        AddIPs rangeOrder nb as ipl tr = (None, as, tr)
        \<and> DeleteIPs nb as ipl tr = (None, as, tr)"
    by (simp add: AddIPs_def DeleteIPs_def)
  have partition: "fst (splitIPsByFamily ipl) = filter (\<lambda>ip. \<not> IsIPv6 ip) ipl
   \<and> snd (splitIPsByFamily ipl) = filter IsIPv6 ipl
   \<and> mset (fst (splitIPsByFamily ipl)) + mset (snd (splitIPsByFamily ipl)) = mset ipl
   \<and> set (fst (splitIPsByFamily ipl)) \<inter> set (snd (splitIPsByFamily ipl)) = {}
   \<and> (ip \<in> set (snd (splitIPsByFamily ipl))) = (ip \<in> set ipl \<and> IsIPv6 ip)
   \<and> (ip \<in> set (fst (splitIPsByFamily ipl))) = (ip \<in> set ipl \<and> \<not> IsIPv6 ip)"
    using count disjoint by (simp add: split)
  have routing: "ipl \<noteq> [] \<longrightarrow>
        AddIPs rangeOrder nb as ipl tr =
          (case onFamily (ipv6 as)
                  (\<lambda>s6. addIPs rangeOrder nb s6 (snd (splitIPsByFamily ipl))) tr of
             (Some err, a6, tr6) \<Rightarrow>
               (Some (Errorf ''failed to AddIPs to the v6 set: %w'' [] err),
                as\<lparr>ipv6 := a6\<rparr>, tr6)
           | (None, a6, tr6) \<Rightarrow>
               (case onFamily (ipv4 as)
                       (\<lambda>s4. addIPs rangeOrder nb s4 (fst (splitIPsByFamily ipl))) tr6 of
                  (e4, a4, tr4) \<Rightarrow>
                    (map_option (Errorf ''failed to AddIPs to the v4 set: %w'' []) e4,
                     as\<lparr>ipv6 := a6, ipv4 := a4\<rparr>, tr4)))
        \<and> DeleteIPs nb as ipl tr =
          (case onFamily (ipv6 as)
                  (\<lambda>s6. deleteIPs nb s6 (snd (splitIPsByFamily ipl))) tr of
             (Some err, a6, tr6) \<Rightarrow>
               (Some (Errorf ''failed to AddIPs to the v6 set: %w'' [] err),
                as\<lparr>ipv6 := a6\<rparr>, tr6)
           | (None, a6, tr6) \<Rightarrow>
               (case onFamily (ipv4 as)
                       (\<lambda>s4. deleteIPs nb s4 (fst (splitIPsByFamily ipl))) tr6 of
                  (e4, a4, tr4) \<Rightarrow>
                    (map_option (Errorf ''failed to AddIPs to the v4 set: %w'' []) e4,
                     as\<lparr>ipv6 := a6, ipv4 := a4\<rparr>, tr4)))"
    unfolding split
    using AddIPs_routing [of ipl rangeOrder nb as tr] DeleteIPs_routing [of ipl nb as tr]
    by blast
  show ?thesis
    using partition routing empty SetIPs_routing [of nb as ipl tr]
      newOvnAddressSets_routing [of IPv4Mode IPv6Mode HashForOVN nb nm ipl tr]
    unfolding split
    by blast
qed

theorem splitIPsByFamily_partition_and_routing_witness:
  "[ip_10_0_0_1, ip_2001_db8_1] \<noteq> []
   \<and> splitIPsByFamily [ip_10_0_0_1, ip_2001_db8_1] = ([ip_10_0_0_1], [ip_2001_db8_1])
   \<and> SetIPs okClient (v4OnlySet []) [ip_10_0_0_1, ip_2001_db8_1] []
       = (None, v4OnlySet [ip_10_0_0_1],
          [ASUpdateCall ''h4'' [''10.0.0.1''] [(''name'', ''ns1_v4'')], ExecuteCall ''h4''])
   \<and> AddIPs rev okClient (v4OnlySet []) [ip_10_0_0_1, ip_2001_db8_1] []
       = (None, v4OnlySet [ip_10_0_0_1],
          [ASUpdateCall ''h4'' [''10.0.0.1''] [(''name'', ''ns1_v4'')], ExecuteCall ''h4''])
   \<and> DeleteIPs okClient (v4OnlySet [ip_10_0_0_1]) [ip_10_0_0_1, ip_2001_db8_1] []
       = (None, v4OnlySet [],
          [ASUpdateCall ''h4'' [] [(''name'', ''ns1_v4'')], ExecuteCall ''h4''])
   \<and> AddIPs rev okClient (v4OnlySet []) [] [] = (None, v4OnlySet [], [])
   \<and> DeleteIPs okClient (v4OnlySet []) [] [] = (None, v4OnlySet [], [])
   \<and> newOvnAddressSets True False (\<lambda>s. CHR ''h'' # s) notFoundClient ''ns1''
         [ip_10_0_0_1, ip_2001_db8_1] []
       = (Inr \<lparr>ovnAddressSets.name = ''ns1'',
                ipv4 = Some \<lparr>ovnAddressSet.name = ''ns1_v4'', hashName = ''hns1_v4'',
                              uuid = [], ips = [(''10.0.0.1'', ip_10_0_0_1)]\<rparr>,
                ipv6 = None\<rparr>,
          [ASGetCall ''hns1_v4'',
           ASAddCall ''hns1_v4'' [''10.0.0.1''] [(''name'', ''ns1_v4'')],
           ExecuteCall ''hns1_v4''])"
proof -
  let ?ipl = "[ip_10_0_0_1, ip_2001_db8_1]"
  let ?hash = "\<lambda>s. CHR ''h'' # s"
  note defs = onFamily_def whenMode_def setIPs_def addIPs_def deleteIPs_def
    newOvnAddressSet_def allIPs_def Wrapf_def hashedAddressSet_def MakeAddressSetName_def
    ipv4AddressSetSuffix_def ipv6AddressSetSuffix_def okClient_def notFoundClient_def
    v4OnlySet_def set4_def storeIPs_def ipsToStringArray_def Let_def
    ip_10_0_0_1_def ip_2001_db8_1_def
  have ne: "?ipl \<noteq> []" by simp
  have nil: "([]::IP list) = []" by simp
  have split: "splitIPsByFamily ?ipl = ([ip_10_0_0_1], [ip_2001_db8_1])"
    by (simp add: splitIPsByFamily_def ip_10_0_0_1_def ip_2001_db8_1_def)
  from splitIPsByFamily_partition_and_routing
         [of ?ipl ip_10_0_0_1 okClient "v4OnlySet []" "[]" rev True False ?hash "''ns1''"]
    ne split
  have set: "SetIPs okClient (v4OnlySet []) ?ipl []
       = (None, v4OnlySet [ip_10_0_0_1],
          [ASUpdateCall ''h4'' [''10.0.0.1''] [(''name'', ''ns1_v4'')], ExecuteCall ''h4''])"
    and add: "AddIPs rev okClient (v4OnlySet []) ?ipl []
       = (None, v4OnlySet [ip_10_0_0_1],
          [ASUpdateCall ''h4'' [''10.0.0.1''] [(''name'', ''ns1_v4'')], ExecuteCall ''h4''])"
    by (simp_all add: defs)
  from splitIPsByFamily_partition_and_routing
         [of ?ipl ip_10_0_0_1 okClient "v4OnlySet [ip_10_0_0_1]" "[]" rev True False ?hash
            "''ns1''"]
    ne split
  have del: "DeleteIPs okClient (v4OnlySet [ip_10_0_0_1]) ?ipl []
       = (None, v4OnlySet [],
          [ASUpdateCall ''h4'' [] [(''name'', ''ns1_v4'')], ExecuteCall ''h4''])"
    by (simp add: defs)
  from splitIPsByFamily_partition_and_routing
         [of ?ipl ip_10_0_0_1 notFoundClient "v4OnlySet []" "[]" rev True False ?hash
            "''ns1''"]
    split
  have new: "newOvnAddressSets True False ?hash notFoundClient ''ns1'' ?ipl []
       = (Inr \<lparr>ovnAddressSets.name = ''ns1'',
                ipv4 = Some \<lparr>ovnAddressSet.name = ''ns1_v4'', hashName = ''hns1_v4'',
                              uuid = [], ips = [(''10.0.0.1'', ip_10_0_0_1)]\<rparr>,
                ipv6 = None\<rparr>,
          [ASGetCall ''hns1_v4'',
           ASAddCall ''hns1_v4'' [''10.0.0.1''] [(''name'', ''ns1_v4'')],
           ExecuteCall ''hns1_v4''])"
    by (simp add: defs)
  from splitIPsByFamily_partition_and_routing
         [of "[]" ip_10_0_0_1 okClient "v4OnlySet []" "[]" rev True False ?hash "''ns1''"]
    nil
  have empty: "AddIPs rev okClient (v4OnlySet []) [] [] = (None, v4OnlySet [], [])"
    "DeleteIPs okClient (v4OnlySet []) [] [] = (None, v4OnlySet [], [])"
    by simp_all
  from ne split set add del empty new show ?thesis by simp
qed

theorem dual_stack_routing_counterexample:
  "SetIPs okClient (v4OnlySet []) [ip_2001_db8_1] []
     = (None, v4OnlySet [],
        [ASUpdateCall ''h4'' [] [(''name'', ''ns1_v4'')], ExecuteCall ''h4''])
   \<and> length (filter (carries (String ip_2001_db8_1))
               (snd (snd (SetIPs okClient (v4OnlySet []) [ip_2001_db8_1] [])))) \<noteq> 1
   \<and> newOvnAddressSets True False (\<lambda>s. CHR ''h'' # s) notFoundClient ''ns1''
         [ip_2001_db8_1] []
     = (Inr \<lparr>ovnAddressSets.name = ''ns1'',
              ipv4 = Some \<lparr>ovnAddressSet.name = ''ns1_v4'', hashName = ''hns1_v4'',
                            uuid = [], ips = []\<rparr>,
              ipv6 = None\<rparr>,
        [ASGetCall ''hns1_v4'', ASAddCall ''hns1_v4'' [] [(''name'', ''ns1_v4'')],
         ExecuteCall ''hns1_v4''])
   \<and> length (filter (carries (String ip_2001_db8_1))
               (snd (newOvnAddressSets True False (\<lambda>s. CHR ''h'' # s) notFoundClient ''ns1''
                       [ip_2001_db8_1] []))) \<noteq> 1"
  by (simp add: SetIPs_def newOvnAddressSets_def newOvnAddressSet_def setIPs_def Wrapf_def
      splitIPsByFamily_def hashedAddressSet_def MakeAddressSetName_def
      ipv4AddressSetSuffix_def ipv6AddressSetSuffix_def okClient_def notFoundClient_def
      v4OnlySet_def set4_def storeIPs_def ipsToStringArray_def Let_def ip_2001_db8_1_def)

end
